theory Spec2Isabelle
  imports Main "HOL-Library.Char_ord" "HOL-Library.List_Lexorder"
begin

section \<open>The S3 key-value store driver: data model\<close>

text \<open>
  A shallow embedding of \<^verbatim>\<open>tensorstore/kvstore/s3/s3_key_value_store.cc\<close>: the four
  per-operation tasks (\<^verbatim>\<open>ReadTask\<close>, \<^verbatim>\<open>WriteTask\<close>, \<^verbatim>\<open>DeleteTask\<close>, \<^verbatim>\<open>ListTask\<close>) and
  the shared retry policy \<^verbatim>\<open>S3KeyValueStore::BackoffForAttemptAsync\<close>.

  Every callback of a task is a function from the task and the world to the task and the
  world. The world holds what the callbacks reach outside the task: the wall clock, the
  HTTP transport, the timer queue and the metric counters. Times and durations are
  integers counting nanoseconds.
\<close>

type_synonym Time = int
type_synonym Duration = int

definition Seconds :: "int \<Rightarrow> Duration" where
  "Seconds n = n * 1000000000"

text \<open>\<^verbatim>\<open>absl::ToInt64Milliseconds\<close>: the quotient truncated towards zero.\<close>

definition ToInt64Milliseconds :: "Duration \<Rightarrow> int" where
  "ToInt64Milliseconds d = (if 0 \<le> d then d div 1000000 else - ((- d) div 1000000))"

subsection \<open>Status and Result\<close>

datatype StatusCode =
    kOk | kCancelled | kUnknown | kInvalidArgument | kDeadlineExceeded | kNotFound
  | kAlreadyExists | kPermissionDenied | kResourceExhausted | kFailedPrecondition
  | kAborted | kOutOfRange | kUnimplemented | kInternal | kUnavailable | kDataLoss
  | kUnauthenticated

record Status =
  code :: StatusCode
  message :: string

definition OkStatus :: Status where
  "OkStatus = \<lparr>code = kOk, message = []\<rparr>"

definition ok :: "Status \<Rightarrow> bool" where
  "ok s = (code s = kOk)"

definition IsCancelled :: "Status \<Rightarrow> bool" where
  "IsCancelled s = (code s = kCancelled)"

definition CancelledError :: Status where
  "CancelledError = \<lparr>code = kCancelled, message = []\<rparr>"

definition InvalidArgumentError :: "string \<Rightarrow> Status" where
  "InvalidArgumentError m = \<lparr>code = kInvalidArgument, message = m\<rparr>"

definition OutOfRangeError :: "string \<Rightarrow> Status" where
  "OutOfRangeError m = \<lparr>code = kOutOfRange, message = m\<rparr>"

text \<open>
  A \<^verbatim>\<open>Result<T>\<close> is \<open>Status + T\<close>: \<open>Inl\<close> holds the error status, \<open>Inr\<close> the value.
\<close>

type_synonym 'a Result = "Status + 'a"

text \<open>Decimal rendering of an integer, as \<^verbatim>\<open>StrCat\<close> prints it.\<close>

definition digit_char :: "nat \<Rightarrow> char" where
  "digit_char n = ''0123456789'' ! (n mod 10)"

fun StrCat_nat :: "nat \<Rightarrow> string" where
  "StrCat_nat n =
     (if n < 10 then [digit_char n] else StrCat_nat (n div 10) @ [digit_char n])"

declare StrCat_nat.simps [simp del]

definition StrCat_int :: "int \<Rightarrow> string" where
  "StrCat_int i = (if i < 0 then CHR ''-'' # StrCat_nat (nat (- i)) else StrCat_nat (nat i))"

text \<open>
  Modelled from the spec: \<^verbatim>\<open>MaybeAnnotateStatus\<close> is declared in
  \<^verbatim>\<open>tensorstore/util/status.h\<close>, which is not among the sources. The spec says of its one
  use that the error "wraps the original status": an OK status is returned as it is, an
  error gets the new code and the prefix in front of its own message.
\<close>

definition MaybeAnnotateStatus :: "Status \<Rightarrow> string \<Rightarrow> StatusCode \<Rightarrow> Status" where
  "MaybeAnnotateStatus status prefix new_code =
     (if ok status then status
      else \<lparr>code = new_code,
            message = (if message status = [] then prefix
                       else prefix @ '': '' @ message status)\<rparr>)"

subsection \<open>Generations, byte ranges, key ranges\<close>

text \<open>
  Modelled from the spec: \<^verbatim>\<open>StorageGeneration\<close> is declared in
  \<^verbatim>\<open>tensorstore/kvstore/generation.h\<close>, which is not among the sources. The spec gives
  it three states: Unknown, NoValue and a concrete ETag.
\<close>

datatype StorageGeneration = Unknown | NoValue | Value string

definition IsUnknown :: "StorageGeneration \<Rightarrow> bool" where
  "IsUnknown g = (g = Unknown)"

definition IsNoValue :: "StorageGeneration \<Rightarrow> bool" where
  "IsNoValue g = (g = NoValue)"

fun DecodeString :: "StorageGeneration \<Rightarrow> string" where
  "DecodeString (Value etag) = etag"
| "DecodeString _ = []"

record TimestampedStorageGeneration =
  generation :: StorageGeneration
  time :: Time

text \<open>
  Byte offsets are signed, with \<open>-1\<close> the sentinel the source tests for
  (\<^verbatim>\<open>inclusive_min != -1\<close>, \<^verbatim>\<open>request_size != -1\<close>).
\<close>

record OptionalByteRangeRequest =
  inclusive_min :: int
  exclusive_max :: int

record ByteRange =
  br_inclusive_min :: nat
  br_exclusive_max :: nat

text \<open>\<^verbatim>\<open>internal::GetSubCord\<close>: the bytes of the payload inside the validated range.\<close>

definition GetSubCord :: "string \<Rightarrow> ByteRange \<Rightarrow> string" where
  "GetSubCord s r = take (br_exclusive_max r - br_inclusive_min r) (drop (br_inclusive_min r) s)"

text \<open>
  Modelled from the spec: \<^verbatim>\<open>KeyRange\<close> and \<^verbatim>\<open>Contains\<close> are declared in
  \<^verbatim>\<open>tensorstore/kvstore/key_range.h\<close>, which is not among the sources. The spec calls a
  KeyRange the interval \<open>[inclusive_min, exclusive_max)\<close> of byte strings in
  lexicographic order; an empty upper bound stands for no upper bound.
\<close>

record KeyRange =
  kr_inclusive_min :: string
  kr_exclusive_max :: string

definition KeyRange_empty :: "KeyRange \<Rightarrow> bool" where
  "KeyRange_empty r = (kr_exclusive_max r \<noteq> [] \<and> kr_exclusive_max r \<le> kr_inclusive_min r)"

definition Contains :: "KeyRange \<Rightarrow> string \<Rightarrow> bool" where
  "Contains r key =
     ((kr_exclusive_max r = [] \<or> key < kr_exclusive_max r) \<and> kr_inclusive_min r \<le> key)"

subsection \<open>HTTP requests and responses\<close>

record HttpResponse =
  status_code :: int
  payload :: string
  headers :: "(string \<times> string) list"

record S3Credentials =
  access_key :: string
  secret_key :: string
  session_token :: string

definition no_credentials :: S3Credentials where
  "no_credentials = \<lparr>access_key = [], secret_key = [], session_token = []\<rparr>"

text \<open>
  The SHA-256 digest is not computed: a payload hash is either the constant
  \<^verbatim>\<open>kEmptySha256\<close> or the digest of a named body.
\<close>

datatype PayloadHash = kEmptySha256 | payload_sha256 string

text \<open>
  \<^verbatim>\<open>S3RequestBuilder\<close> signs the request; its code is not among the sources. A built
  request is modelled by what the builder was given: the method and URL, the headers and
  query parameters in the order they were added, and the arguments of
  \<^verbatim>\<open>BuildRequest\<close>. The body is what \<^verbatim>\<open>IssueRequest\<close> receives beside the request.
\<close>

record S3RequestBuilder =
  http_method :: string
  url :: string
  request_headers :: "string list"
  query_parameters :: "(string \<times> string) list"
  accept_encoding :: bool
  range_header :: "OptionalByteRangeRequest option"

record HttpRequest =
  builder :: S3RequestBuilder
  req_host :: string
  req_credentials :: S3Credentials
  req_aws_region :: string
  req_payload_hash :: PayloadHash
  req_time :: Time
  req_body :: string

definition NewS3RequestBuilder :: "string \<Rightarrow> string \<Rightarrow> S3RequestBuilder" where
  "NewS3RequestBuilder m u =
     \<lparr>http_method = m, url = u, request_headers = [], query_parameters = [],
      accept_encoding = False, range_header = None\<rparr>"

definition AddHeader :: "string \<Rightarrow> S3RequestBuilder \<Rightarrow> S3RequestBuilder" where
  "AddHeader h b = b\<lparr>request_headers := request_headers b @ [h]\<rparr>"

definition AddQueryParameter :: "string \<Rightarrow> string \<Rightarrow> S3RequestBuilder \<Rightarrow> S3RequestBuilder" where
  "AddQueryParameter k v b = b\<lparr>query_parameters := query_parameters b @ [(k, v)]\<rparr>"

definition EnableAcceptEncoding :: "S3RequestBuilder \<Rightarrow> S3RequestBuilder" where
  "EnableAcceptEncoding b = b\<lparr>accept_encoding := True\<rparr>"

definition MaybeAddRequesterPayer :: "bool \<Rightarrow> S3RequestBuilder \<Rightarrow> S3RequestBuilder" where
  "MaybeAddRequesterPayer requester_payer b =
     (if requester_payer then AddHeader ''x-amz-request-payer: requester'' b else b)"

definition MaybeAddRangeHeader :: "OptionalByteRangeRequest \<Rightarrow> S3RequestBuilder \<Rightarrow> S3RequestBuilder" where
  "MaybeAddRangeHeader r b = b\<lparr>range_header := Some r\<rparr>"

definition kEmptyEtag :: string where
  "kEmptyEtag = [CHR 0x22, CHR 0x22]"

text \<open>\<^verbatim>\<open>AddGenerationHeader\<close>: returns whether a header was added, and the builder.\<close>

definition AddGenerationHeader ::
  "S3RequestBuilder \<Rightarrow> string \<Rightarrow> StorageGeneration \<Rightarrow> bool \<times> S3RequestBuilder" where
  "AddGenerationHeader b header gen =
     (if IsUnknown gen then (False, b)
      else let etag = (if IsNoValue gen then kEmptyEtag else DecodeString gen)
           in (True, AddHeader (header @ '': '' @ etag) b))"

subsection \<open>Results of reads and writes\<close>

text \<open>
  \<^verbatim>\<open>kvstore::ReadResult\<close> and the option structs are declared in headers that are not
  among the sources; their fields are the ones the source reads and writes. A
  default-constructed ReadResult is in state \<^verbatim>\<open>kUnspecified\<close> with an empty value (the
  spec's "state = Unspecified" for the branches that assign no state). \<^verbatim>\<open>ReadOptions\<close>
  extends \<^verbatim>\<open>WriteOptions\<close> here only so that both share the field name \<open>if_equal\<close>.
\<close>

datatype ReadResult_State = kUnspecified | kMissing | kValue

record ReadResult =
  state :: ReadResult_State
  rr_value :: string
  stamp :: TimestampedStorageGeneration

record WriteOptions =
  if_equal :: StorageGeneration

record ReadOptions = WriteOptions +
  if_not_equal :: StorageGeneration
  byte_range :: OptionalByteRangeRequest

subsection \<open>Promises\<close>

text \<open>
  A \<^verbatim>\<open>Promise<T>\<close> holds at most one result; \<^verbatim>\<open>SetResult\<close> on a promise that already has
  one changes nothing. \<open>needed\<close> is what \<^verbatim>\<open>result_needed()\<close> reports.
\<close>

record 'a Promise =
  result :: "'a Result option"
  needed :: bool

definition result_needed :: "'a Promise \<Rightarrow> bool" where
  "result_needed p = needed p"

definition SetResult :: "'a Result \<Rightarrow> 'a Promise \<Rightarrow> 'a Promise" where
  "SetResult r p = (if result p = None then p\<lparr>result := Some r\<rparr> else p)"

subsection \<open>Collaborators outside the translation unit\<close>

text \<open>
  The driver calls helper functions whose definitions live in other files of the
  repository. The tasks below take them as a parameter, so every theorem about a task
  holds for any implementation of the helpers, under the hypotheses it states about them.
  \<open>byte_range_size\<close> is \<^verbatim>\<open>OptionalByteRangeRequest::size()\<close>, \<open>ByteRangeToString\<close> its
  stream output, and \<open>Validate\<close> is \<^verbatim>\<open>OptionalByteRangeRequest::Validate\<close>.
\<close>

record TagAndPosition =
  tag :: string
  pos :: nat

record Deps =
  HttpResponseCodeToStatus :: "HttpResponse \<Rightarrow> Status"
  IsRetriable :: "Status \<Rightarrow> bool"
  ParseContentRangeHeader :: "HttpResponse \<Rightarrow> (nat \<times> nat \<times> nat) Result"
  StorageGenerationFromHeaders :: "(string \<times> string) list \<Rightarrow> StorageGeneration Result"
  Validate :: "OptionalByteRangeRequest \<Rightarrow> nat \<Rightarrow> ByteRange Result"
  byte_range_size :: "OptionalByteRangeRequest \<Rightarrow> int"
  ByteRangeToString :: "OptionalByteRangeRequest \<Rightarrow> string"
  FindTag :: "string \<Rightarrow> string \<Rightarrow> nat \<Rightarrow> bool \<Rightarrow> nat Result"
  GetTag :: "string \<Rightarrow> string \<Rightarrow> string \<Rightarrow> nat \<Rightarrow> TagAndPosition Result"
  SimpleAtoi :: "string \<Rightarrow> nat option"

subsection \<open>The driver and the world\<close>

text \<open>
  The fields of \<^verbatim>\<open>S3KeyValueStore\<close> that the tasks read; \<open>max_retries\<close>,
  \<open>initial_delay\<close> and \<open>max_delay\<close> are those of \<^verbatim>\<open>spec_.retries\<close>, \<open>requester_pays\<close> is
  \<^verbatim>\<open>spec_.requester_pays\<close>.
\<close>

record S3KeyValueStore =
  endpoint :: string
  host :: string
  aws_region :: string
  requester_pays :: bool
  max_retries :: int
  initial_delay :: Duration
  max_delay :: Duration

text \<open>
  What \<^verbatim>\<open>ScheduleAt\<close> is given: the closure \<^verbatim>\<open>[task] { task->Retry(); }\<close>, wrapped by
  \<^verbatim>\<open>WithExecutor\<close>.
\<close>

datatype Closure = TaskRetry
datatype Callback = WithExecutor Closure

text \<open>
  The world. \<open>clock\<close> lists the successive readings of \<^verbatim>\<open>absl::Now()\<close> and \<open>ticks\<close> counts
  the readings taken; \<open>entropy\<close> and \<open>draws\<close> do the same for the random bits of the
  jitter, \<open>cancel_signal\<close> and \<open>loads\<close> for the successive loads of a list task's atomic
  \<^verbatim>\<open>cancelled_\<close> flag, which the receiver may set at any moment. \<open>transport\<close> is the log of
  \<^verbatim>\<open>transport_->IssueRequest\<close> calls, \<open>timers\<close> the log of \<^verbatim>\<open>ScheduleAt\<close> calls; the rest
  are the metrics.
\<close>

record World =
  clock :: "nat \<Rightarrow> Time"
  ticks :: nat
  entropy :: "nat \<Rightarrow> nat"
  draws :: nat
  cancel_signal :: "nat \<Rightarrow> bool"
  loads :: nat
  transport :: "HttpRequest list"
  timers :: "(Time \<times> Callback) list"
  s3_bytes_read :: int
  s3_bytes_written :: int
  s3_retries :: int
  s3_read_latency_ms :: "int list"
  s3_write_latency_ms :: "int list"

definition absl_Now :: "World \<Rightarrow> Time \<times> World" where
  "absl_Now w = (clock w (ticks w), w\<lparr>ticks := Suc (ticks w)\<rparr>)"

definition draw :: "World \<Rightarrow> nat \<times> World" where
  "draw w = (entropy w (draws w), w\<lparr>draws := Suc (draws w)\<rparr>)"

definition ScheduleAt :: "Time \<Rightarrow> Callback \<Rightarrow> World \<Rightarrow> World" where
  "ScheduleAt t f w = w\<lparr>timers := timers w @ [(t, f)]\<rparr>"

definition BuildRequest ::
  "S3RequestBuilder \<Rightarrow> string \<Rightarrow> S3Credentials \<Rightarrow> string \<Rightarrow> PayloadHash \<Rightarrow> Time \<Rightarrow> HttpRequest" where
  "BuildRequest b h credentials region payload_hash t =
     \<lparr>builder = b, req_host = h, req_credentials = credentials,
      req_aws_region = region, req_payload_hash = payload_hash, req_time = t,
      req_body = []\<rparr>"

definition IssueRequest :: "HttpRequest \<Rightarrow> string \<Rightarrow> World \<Rightarrow> World" where
  "IssueRequest request body w = w\<lparr>transport := transport w @ [request\<lparr>req_body := body\<rparr>]\<rparr>"

section \<open>Retry with backoff\<close>

text \<open>
  Modelled from the spec: \<^verbatim>\<open>internal::BackoffForAttempt\<close> is defined in
  \<^verbatim>\<open>tensorstore/internal/retry.cc\<close>, which is not among the sources. The spec gives
  \<open>delay = min(initial_delay \<cdot> 2^attempt, max_delay)\<close> with additive jitter uniformly
  distributed in \<open>[0, jitter]\<close>. The last argument is the random number the jitter is
  drawn from; with no positive jitter bound nothing is added.
\<close>

definition BackoffForAttempt :: "int \<Rightarrow> Duration \<Rightarrow> Duration \<Rightarrow> Duration \<Rightarrow> nat \<Rightarrow> Duration" where
  "BackoffForAttempt attempt initial max_d jitter r =
     min (initial * 2 ^ nat attempt) max_d
       + (if 0 < jitter then int r mod (jitter + 1) else 0)"

text \<open>
  \<^verbatim>\<open>S3KeyValueStore::BackoffForAttemptAsync\<close>. Returns the status and the world; on
  \<open>OkStatus\<close> the task's \<^verbatim>\<open>Retry()\<close> has been scheduled.
\<close>

definition BackoffForAttemptAsync ::
  "S3KeyValueStore \<Rightarrow> Status \<Rightarrow> int \<Rightarrow> World \<Rightarrow> Status \<times> World" where
  "BackoffForAttemptAsync owner status attempt w =
     (if attempt \<ge> max_retries owner then
        (MaybeAnnotateStatus status
           (''All '' @ StrCat_int attempt @ '' retry attempts failed'') kAborted, w)
      else
        let w = w\<lparr>s3_retries := s3_retries w + 1\<rparr>;
            (r, w) = draw w;
            delay = BackoffForAttempt attempt (initial_delay owner) (max_delay owner)
                      (min (Seconds 1) (initial_delay owner)) r;
            (now, w) = absl_Now w
        in (OkStatus, ScheduleAt (now + delay) (WithExecutor TaskRetry) w))"

section \<open>The tasks\<close>

text \<open>
  The fields that several task structs declare under the same name are declared once
  here, in parent records, so that each keeps the name it has in the source. Member
  names are written without the trailing underscore of the source (\<open>attempt\<close> for
  \<^verbatim>\<open>attempt_\<close>), which is not allowed in a name here.
  A callback returns \<open>None\<close> where the source reads the value of a \<^verbatim>\<open>Result\<close> that holds
  an error, which is undefined behaviour.
\<close>

record TaskBase =
  attempt :: int
  start_time :: Time

record ('o, 'r) PointTask = TaskBase +
  options :: 'o
  promise :: "'r Promise"

subsection \<open>ReadTask\<close>

record ReadTask = "(ReadOptions, ReadResult) PointTask" +
  read_url :: string

definition ReadTask_Retry ::
  "S3KeyValueStore \<Rightarrow> S3Credentials option Result \<Rightarrow> ReadTask \<Rightarrow> World \<Rightarrow> ReadTask \<times> World" where
  "ReadTask_Retry owner maybe_credentials self w =
     (if \<not> result_needed (promise self) then (self, w)
      else case maybe_credentials of
        Inl st \<Rightarrow> (self\<lparr>promise := SetResult (Inl st) (promise self)\<rparr>, w)
      | Inr c \<Rightarrow>
          let request_builder = NewS3RequestBuilder ''GET'' (read_url self);
              request_builder = snd (AddGenerationHeader request_builder ''if-none-match''
                                       (if_not_equal (options self)));
              request_builder = snd (AddGenerationHeader request_builder ''if-match''
                                       (if_equal (options self)));
              credentials = (case c of Some cr \<Rightarrow> cr | None \<Rightarrow> no_credentials);
              (now, w) = absl_Now w;
              self = self\<lparr>start_time := now\<rparr>;
              request = BuildRequest
                          (MaybeAddRangeHeader (byte_range (options self))
                            (MaybeAddRequesterPayer (requester_pays owner)
                              (EnableAcceptEncoding request_builder)))
                          (host owner) credentials (aws_region owner) kEmptySha256
                          (start_time self)
          in (self, IssueRequest request [] w))"

definition ReadTask_FinishResponse ::
  "Deps \<Rightarrow> HttpResponse \<Rightarrow> ReadTask \<Rightarrow> World \<Rightarrow> ReadResult Result \<times> World" where
  "ReadTask_FinishResponse D httpresponse self w =
     (let w = w\<lparr>s3_bytes_read := s3_bytes_read w + int (length (payload httpresponse))\<rparr>;
          (now, w) = absl_Now w;
          latency = now - start_time self;
          w = w\<lparr>s3_read_latency_ms := s3_read_latency_ms w @ [ToInt64Milliseconds latency]\<rparr>;
          read_result = \<lparr>state = kUnspecified, rr_value = [],
                         stamp = \<lparr>generation = Unknown, time = start_time self\<rparr>\<rparr>
      in
        if status_code httpresponse = 204 \<or> status_code httpresponse = 404 then
          (Inr (read_result\<lparr>state := kMissing,
                            stamp := (stamp read_result)\<lparr>generation := NoValue\<rparr>\<rparr>), w)
        else if status_code httpresponse = 412 then
          (Inr (read_result\<lparr>stamp := (stamp read_result)\<lparr>generation := Unknown\<rparr>\<rparr>), w)
        else if status_code httpresponse = 304 then
          (Inr (read_result\<lparr>stamp := (stamp read_result)
                              \<lparr>generation := if_not_equal (options self)\<rparr>\<rparr>), w)
        else
          let payload_size = length (payload httpresponse);
              body =
                (if status_code httpresponse \<noteq> 206 then
                   (case Validate D (byte_range (options self)) payload_size of
                      Inl e \<Rightarrow> Inl e
                    | Inr r \<Rightarrow>
                        Inr (read_result\<lparr>state := kValue,
                                         rr_value := GetSubCord (payload httpresponse) r\<rparr>))
                 else
                   (case ParseContentRangeHeader D httpresponse of
                      Inl e \<Rightarrow> Inl e
                    | Inr content_range_tuple \<Rightarrow>
                        let request_size = byte_range_size D (byte_range (options self)) in
                        if (inclusive_min (byte_range (options self)) \<noteq> - 1 \<and>
                            inclusive_min (byte_range (options self))
                              \<noteq> int (fst content_range_tuple)) \<or>
                           (request_size \<noteq> - 1 \<and> request_size \<noteq> int payload_size)
                        then
                          Inl (OutOfRangeError
                                 (''Requested byte range ''
                                  @ ByteRangeToString D (byte_range (options self))
                                  @ '' was not satisfied by S3 response of size ''
                                  @ StrCat_nat payload_size))
                        else
                          Inr (read_result\<lparr>state := kValue,
                                           rr_value := payload httpresponse\<rparr>)))
          in
            (case body of
               Inl e \<Rightarrow> (Inl e, w)
             | Inr read_result \<Rightarrow>
                 (case StorageGenerationFromHeaders D (headers httpresponse) of
                    Inl e \<Rightarrow> (Inl e, w)
                  | Inr g \<Rightarrow>
                      (Inr (read_result\<lparr>stamp := (stamp read_result)\<lparr>generation := g\<rparr>\<rparr>), w))))"

text \<open>
  The status that the lambda at the head of \<^verbatim>\<open>ReadTask::OnResponse\<close> computes: the
  status codes 412, 404 and 304 are handled outside the retry loop.
\<close>

definition ReadTask_response_status :: "Deps \<Rightarrow> HttpResponse Result \<Rightarrow> Status" where
  "ReadTask_response_status D response =
     (case response of
        Inl st \<Rightarrow> st
      | Inr r \<Rightarrow>
          if status_code r = 412 \<or> status_code r = 404 \<or> status_code r = 304
          then OkStatus
          else HttpResponseCodeToStatus D r)"

definition ReadTask_OnResponse ::
  "Deps \<Rightarrow> S3KeyValueStore \<Rightarrow> HttpResponse Result \<Rightarrow> ReadTask \<Rightarrow> World
     \<Rightarrow> (ReadTask \<times> World) option" where
  "ReadTask_OnResponse D owner response self w =
     (if \<not> result_needed (promise self) then Some (self, w)
      else
        let status = ReadTask_response_status D response in
          if \<not> ok status \<and> IsRetriable D status then
            let (status, w) = BackoffForAttemptAsync owner status (attempt self) w;
                self = self\<lparr>attempt := attempt self + 1\<rparr>
            in if ok status then Some (self, w)
               else Some (self\<lparr>promise := SetResult (Inl status) (promise self)\<rparr>, w)
          else if \<not> ok status then
            Some (self\<lparr>promise := SetResult (Inl status) (promise self)\<rparr>, w)
          else
            (case response of
               Inl _ \<Rightarrow> None
             | Inr r \<Rightarrow>
                 let (res, w) = ReadTask_FinishResponse D r self w
                 in Some (self\<lparr>promise := SetResult res (promise self)\<rparr>, w)))"

text \<open>
  The status that \<^verbatim>\<open>WriteTask::OnResponse\<close> and \<^verbatim>\<open>ListTask::OnResponseImpl\<close> compute
  from the response: \<^verbatim>\<open>response.ok() ? HttpResponseCodeToStatus(*response) : response.status()\<close>.
\<close>

definition response_status :: "Deps \<Rightarrow> HttpResponse Result \<Rightarrow> Status" where
  "response_status D response =
     (case response of
        Inl st \<Rightarrow> st
      | Inr r \<Rightarrow> HttpResponseCodeToStatus D r)"

subsection \<open>WriteTask\<close>

record MutateTask = "(WriteOptions, TimestampedStorageGeneration) PointTask" +
  credentials :: S3Credentials

record WriteTask = MutateTask +
  encoded_object_name :: string
  value_cord :: string
  upload_url :: string

definition WriteTask_DoPut :: "S3KeyValueStore \<Rightarrow> WriteTask \<Rightarrow> World \<Rightarrow> WriteTask \<times> World" where
  "WriteTask_DoPut owner self w =
     (let self = self\<lparr>upload_url := endpoint owner @ ''/'' @ encoded_object_name self\<rparr>;
          (now, w) = absl_Now w;
          self = self\<lparr>start_time := now\<rparr>;
          content_sha256 = payload_sha256 (value_cord self);
          request = BuildRequest
                      (MaybeAddRequesterPayer (requester_pays owner)
                        (AddHeader (''Content-Length: '' @ StrCat_nat (length (value_cord self)))
                          (AddHeader ''Content-Type: application/octet-stream''
                            (NewS3RequestBuilder ''PUT'' (upload_url self)))))
                      (host owner) (credentials self) (aws_region owner) content_sha256
                      (start_time self)
      in (self, IssueRequest request (value_cord self) w))"

definition WriteTask_Retry ::
  "S3KeyValueStore \<Rightarrow> S3Credentials option Result \<Rightarrow> WriteTask \<Rightarrow> World \<Rightarrow> WriteTask \<times> World" where
  "WriteTask_Retry owner maybe_credentials self w =
     (if \<not> result_needed (promise self) then (self, w)
      else
        let self = self\<lparr>upload_url := endpoint owner @ ''/'' @ encoded_object_name self\<rparr> in
        case maybe_credentials of
          Inl st \<Rightarrow> (self\<lparr>promise := SetResult (Inl st) (promise self)\<rparr>, w)
        | Inr c \<Rightarrow>
            let self = (case c of Some cr \<Rightarrow> self\<lparr>credentials := cr\<rparr> | None \<Rightarrow> self) in
            if IsUnknown (if_equal (options self)) then WriteTask_DoPut owner self w
            else
              let (now, w) = absl_Now w;
                  builder = NewS3RequestBuilder ''HEAD'' (upload_url self);
                  builder = snd (AddGenerationHeader builder ''if-match''
                                   (if_equal (options self)));
                  request = BuildRequest (MaybeAddRequesterPayer (requester_pays owner) builder)
                              (host owner) (credentials self) (aws_region owner)
                              kEmptySha256 now
              in (self, IssueRequest request [] w))"

definition WriteTask_OnPeekResponse ::
  "S3KeyValueStore \<Rightarrow> HttpResponse Result \<Rightarrow> WriteTask \<Rightarrow> World \<Rightarrow> WriteTask \<times> World" where
  "WriteTask_OnPeekResponse owner response self w =
     (case response of
        Inl st \<Rightarrow> (self\<lparr>promise := SetResult (Inl st) (promise self)\<rparr>, w)
      | Inr resp \<Rightarrow>
          let (now, w) = absl_Now w;
              r = \<lparr>generation = Unknown, time = now\<rparr>
          in
            if status_code resp = 304 \<or> status_code resp = 412 then
              (self\<lparr>promise := SetResult (Inr (r\<lparr>generation := Unknown\<rparr>)) (promise self)\<rparr>, w)
            else if status_code resp = 404 \<and> \<not> IsUnknown (if_equal (options self))
                    \<and> \<not> IsNoValue (if_equal (options self)) then
              (self\<lparr>promise := SetResult (Inr (r\<lparr>generation := Unknown\<rparr>)) (promise self)\<rparr>, w)
            else WriteTask_DoPut owner self w)"

definition WriteTask_FinishResponse ::
  "Deps \<Rightarrow> HttpResponse \<Rightarrow> WriteTask \<Rightarrow> World
     \<Rightarrow> TimestampedStorageGeneration Result \<times> World" where
  "WriteTask_FinishResponse D response self w =
     (let r = \<lparr>generation = Unknown, time = start_time self\<rparr> in
      if status_code response = 404 \<and> \<not> IsUnknown (if_equal (options self)) then
        (Inr (r\<lparr>generation := Unknown\<rparr>), w)
      else
        let (now, w) = absl_Now w;
            latency = now - start_time self;
            w = w\<lparr>s3_write_latency_ms := s3_write_latency_ms w @ [ToInt64Milliseconds latency]\<rparr>;
            w = w\<lparr>s3_bytes_written := s3_bytes_written w + int (length (value_cord self))\<rparr>
        in
          (case StorageGenerationFromHeaders D (headers response) of
             Inl e \<Rightarrow> (Inl e, w)
           | Inr g \<Rightarrow> (Inr (r\<lparr>generation := g\<rparr>), w)))"

definition WriteTask_OnResponse ::
  "Deps \<Rightarrow> S3KeyValueStore \<Rightarrow> HttpResponse Result \<Rightarrow> WriteTask \<Rightarrow> World
     \<Rightarrow> (WriteTask \<times> World) option" where
  "WriteTask_OnResponse D owner response self w =
     (if \<not> result_needed (promise self) then Some (self, w)
      else
        let status = response_status D response in
          if \<not> ok status \<and> IsRetriable D status then
            let (status, w) = BackoffForAttemptAsync owner status (attempt self) w;
                self = self\<lparr>attempt := attempt self + 1\<rparr>
            in if ok status then Some (self, w)
               else Some (self\<lparr>promise := SetResult (Inl status) (promise self)\<rparr>, w)
          else if \<not> ok status then
            Some (self\<lparr>promise := SetResult (Inl status) (promise self)\<rparr>, w)
          else
            (case response of
               Inl _ \<Rightarrow> None
             | Inr r \<Rightarrow>
                 let (res, w) = WriteTask_FinishResponse D r self w
                 in Some (self\<lparr>promise := SetResult res (promise self)\<rparr>, w)))"

subsection \<open>DeleteTask\<close>

record DeleteTask = MutateTask +
  resource :: string

definition DeleteTask_DoDelete :: "S3KeyValueStore \<Rightarrow> DeleteTask \<Rightarrow> World \<Rightarrow> DeleteTask \<times> World" where
  "DeleteTask_DoDelete owner self w =
     (let (now, w) = absl_Now w;
          self = self\<lparr>start_time := now\<rparr>;
          request = BuildRequest
                      (MaybeAddRequesterPayer (requester_pays owner)
                        (NewS3RequestBuilder ''DELETE'' (resource self)))
                      (host owner) (credentials self) (aws_region owner) kEmptySha256
                      (start_time self)
      in (self, IssueRequest request [] w))"

text \<open>
  \<open>valid_generation\<close> is the value of \<^verbatim>\<open>IsValidStorageGeneration(options.if_equal)\<close>, a
  helper defined outside the translation unit.
\<close>

definition DeleteTask_Retry ::
  "S3KeyValueStore \<Rightarrow> bool \<Rightarrow> S3Credentials option Result \<Rightarrow> DeleteTask \<Rightarrow> World
     \<Rightarrow> DeleteTask \<times> World" where
  "DeleteTask_Retry owner valid_generation maybe_credentials self w =
     (if \<not> result_needed (promise self) then (self, w)
      else
        let delete_url = resource self in
        if \<not> valid_generation then
          (self\<lparr>promise := SetResult (Inl (InvalidArgumentError ''Malformed StorageGeneration''))
                               (promise self)\<rparr>, w)
        else
          case maybe_credentials of
            Inl st \<Rightarrow> (self\<lparr>promise := SetResult (Inl st) (promise self)\<rparr>, w)
          | Inr c \<Rightarrow>
              let self = (case c of Some cr \<Rightarrow> self\<lparr>credentials := cr\<rparr> | None \<Rightarrow> self) in
              if IsUnknown (if_equal (options self)) then DeleteTask_DoDelete owner self w
              else
                let (now, w) = absl_Now w;
                    builder = NewS3RequestBuilder ''HEAD'' delete_url;
                    builder = snd (AddGenerationHeader builder ''if-match''
                                     (if_equal (options self)));
                    request = BuildRequest (MaybeAddRequesterPayer (requester_pays owner) builder)
                                (host owner) (credentials self) (aws_region owner)
                                kEmptySha256 now
                in (self, IssueRequest request [] w))"

definition DeleteTask_OnPeekResponse ::
  "S3KeyValueStore \<Rightarrow> HttpResponse Result \<Rightarrow> DeleteTask \<Rightarrow> World \<Rightarrow> DeleteTask \<times> World" where
  "DeleteTask_OnPeekResponse owner response self w =
     (case response of
        Inl st \<Rightarrow> (self\<lparr>promise := SetResult (Inl st) (promise self)\<rparr>, w)
      | Inr resp \<Rightarrow>
          let (now, w) = absl_Now w;
              r = \<lparr>generation = Unknown, time = now\<rparr>
          in
            if status_code resp = 412 then
              (self\<lparr>promise := SetResult (Inr (r\<lparr>generation := Unknown\<rparr>)) (promise self)\<rparr>, w)
            else if status_code resp = 404 \<and> \<not> IsUnknown (if_equal (options self))
                    \<and> \<not> IsNoValue (if_equal (options self)) then
              (self\<lparr>promise := SetResult (Inr (r\<lparr>generation := Unknown\<rparr>)) (promise self)\<rparr>, w)
            else DeleteTask_DoDelete owner self w)"

text \<open>
  The status that the lambda at the head of \<^verbatim>\<open>DeleteTask::OnResponse\<close> computes.
\<close>

definition DeleteTask_response_status :: "Deps \<Rightarrow> HttpResponse Result \<Rightarrow> Status" where
  "DeleteTask_response_status D response =
     (case response of
        Inl st \<Rightarrow> st
      | Inr r \<Rightarrow> if status_code r = 404 then OkStatus else HttpResponseCodeToStatus D r)"

definition DeleteTask_OnResponse ::
  "Deps \<Rightarrow> S3KeyValueStore \<Rightarrow> HttpResponse Result \<Rightarrow> DeleteTask \<Rightarrow> World
     \<Rightarrow> (DeleteTask \<times> World) option" where
  "DeleteTask_OnResponse D owner response self w =
     (if \<not> result_needed (promise self) then Some (self, w)
      else
        let status = DeleteTask_response_status D response in
          if \<not> ok status \<and> IsRetriable D status then
            let (status, w) = BackoffForAttemptAsync owner status (attempt self) w;
                self = self\<lparr>attempt := attempt self + 1\<rparr>
            in if ok status then Some (self, w)
               else Some (self\<lparr>promise := SetResult (Inl status) (promise self)\<rparr>, w)
          else if \<not> ok status then
            Some (self\<lparr>promise := SetResult (Inl status) (promise self)\<rparr>, w)
          else
            (case response of
               Inl _ \<Rightarrow> None
             | Inr resp \<Rightarrow>
                 let r = \<lparr>generation = Unknown, time = start_time self\<rparr>;
                     r = (if status_code resp = 404 \<and> \<not> IsNoValue (if_equal (options self))
                             \<and> \<not> IsUnknown (if_equal (options self))
                          then r\<lparr>generation := Unknown\<rparr>
                          else r\<lparr>generation := NoValue\<rparr>)
                 in Some (self\<lparr>promise := SetResult (Inr r) (promise self)\<rparr>, w)))"

text \<open>
  An unconditional delete from start to end: \<open>Retry\<close> issues the DELETE request at once
  (there is no HEAD probe), and \<open>OnResponse\<close> receives its response.
\<close>

definition unconditional_Delete ::
  "Deps \<Rightarrow> S3KeyValueStore \<Rightarrow> S3Credentials option \<Rightarrow> HttpResponse \<Rightarrow> DeleteTask \<Rightarrow> World
     \<Rightarrow> (DeleteTask \<times> World) option" where
  "unconditional_Delete D owner c r self w =
     (case DeleteTask_Retry owner True (Inr c) self w of
        (self, w) \<Rightarrow> DeleteTask_OnResponse D owner (Inr r) self w)"

subsection \<open>ListTask\<close>

text \<open>
  The flow receiver is modelled by the sequence of calls it has received.
\<close>

datatype FlowEvent =
    set_starting | set_value string | set_done | set_error Status | set_stopping

record ListOptions =
  key_range :: KeyRange
  strip_prefix_length :: nat

record ListTask = TaskBase +
  list_options :: ListOptions
  receiver :: "FlowEvent list"
  list_resource :: string
  continuation_token :: string

definition emit :: "FlowEvent list \<Rightarrow> ListTask \<Rightarrow> ListTask" where
  "emit es self = self\<lparr>receiver := receiver self @ es\<rparr>"

text \<open>\<^verbatim>\<open>is_cancelled()\<close>: one load of the atomic flag.\<close>

definition is_cancelled :: "World \<Rightarrow> bool \<times> World" where
  "is_cancelled w = (cancel_signal w (loads w), w\<lparr>loads := Suc (loads w)\<rparr>)"

definition kListBucketOpenTag :: string where
  "kListBucketOpenTag =
     ''<ListBucketResult xmlns='' @ [CHR 0x22] @ ''http://s3.amazonaws.com/doc/2006-03-01/''
       @ [CHR 0x22] @ ''>''"

text \<open>
  \<^verbatim>\<open>prefix\<close> is a reference to \<^verbatim>\<open>options_.range.inclusive_min\<close>, so the assignment
  \<^verbatim>\<open>prefix = prefix.substr(0, options_.strip_prefix_length)\<close> writes the task's own range.
\<close>

definition ListTask_IssueRequest ::
  "S3KeyValueStore \<Rightarrow> S3Credentials option Result \<Rightarrow> ListTask \<Rightarrow> World \<Rightarrow> ListTask \<times> World" where
  "ListTask_IssueRequest owner maybe_credentials self w =
     (let (c, w) = is_cancelled w in
      if c then (emit [set_done, set_stopping] self, w)
      else
        let request_builder = AddQueryParameter ''list-type'' ''2''
                                (NewS3RequestBuilder ''GET'' (list_resource self));
            (self, request_builder) =
              (if kr_inclusive_min (key_range (list_options self)) \<noteq> [] then
                 let self =
                       (if strip_prefix_length (list_options self) \<noteq> 0 then
                          self\<lparr>list_options := (list_options self)
                                 \<lparr>key_range := (key_range (list_options self))
                                    \<lparr>kr_inclusive_min :=
                                       take (strip_prefix_length (list_options self))
                                         (kr_inclusive_min (key_range (list_options self)))\<rparr>\<rparr>\<rparr>
                        else self)
                 in (self, AddQueryParameter ''prefix''
                             (kr_inclusive_min (key_range (list_options self))) request_builder)
               else (self, request_builder));
            request_builder =
              (if continuation_token self \<noteq> [] then
                 AddQueryParameter ''continuation-token'' (continuation_token self) request_builder
               else request_builder)
        in
          case maybe_credentials of
            Inl st \<Rightarrow> (emit [set_error st, set_stopping] self, w)
          | Inr c \<Rightarrow>
              let creds = (case c of Some cr \<Rightarrow> cr | None \<Rightarrow> no_credentials);
                  (now, w) = absl_Now w;
                  self = self\<lparr>start_time := now\<rparr>;
                  request = BuildRequest request_builder (host owner) creds (aws_region owner)
                              kEmptySha256 (start_time self)
              in (self, IssueRequest request [] w))"

text \<open>
  The loop \<^verbatim>\<open>for (k = 0; k < keycount; ++k)\<close>, by recursion on the number of iterations
  left. It returns \<open>Inl\<close> the status of an early \<^verbatim>\<open>return\<close>, or \<open>Inr\<close> the final
  \<^verbatim>\<open>tag_and_pos\<close>.
\<close>

fun ListTask_emit_keys ::
  "Deps \<Rightarrow> string \<Rightarrow> nat \<Rightarrow> TagAndPosition \<Rightarrow> ListTask \<Rightarrow> World
     \<Rightarrow> (Status + TagAndPosition) \<times> ListTask \<times> World" where
  "ListTask_emit_keys D payld 0 tag_and_pos self w = (Inr tag_and_pos, self, w)"
| "ListTask_emit_keys D payld (Suc k) tag_and_pos self w =
     (let (c, w) = is_cancelled w in
      if c then (Inl CancelledError, self, w)
      else
        case FindTag D payld ''<Contents>'' (pos tag_and_pos) False of
          Inl e \<Rightarrow> (Inl e, self, w)
        | Inr contents_pos \<Rightarrow>
            (case GetTag D payld ''<Key>'' ''</Key>'' contents_pos of
               Inl e \<Rightarrow> (Inl e, self, w)
             | Inr tag_and_pos \<Rightarrow>
                 if \<not> KeyRange_empty (key_range (list_options self)) \<and>
                    Contains (key_range (list_options self)) (tag tag_and_pos)
                 then
                   let tag_and_pos =
                         (if strip_prefix_length (list_options self) \<noteq> 0 \<and>
                             length (tag tag_and_pos) \<ge> strip_prefix_length (list_options self)
                          then tag_and_pos\<lparr>tag := drop (strip_prefix_length (list_options self))
                                                      (tag tag_and_pos)\<rparr>
                          else tag_and_pos)
                   in ListTask_emit_keys D payld k tag_and_pos
                        (emit [set_value (tag tag_and_pos)] self) w
                 else ListTask_emit_keys D payld k tag_and_pos self w))"

definition ListTask_OnResponseImpl ::
  "Deps \<Rightarrow> S3KeyValueStore \<Rightarrow> S3Credentials option Result \<Rightarrow> HttpResponse Result
     \<Rightarrow> ListTask \<Rightarrow> World \<Rightarrow> (Status \<times> ListTask \<times> World) option" where
  "ListTask_OnResponseImpl D owner maybe_credentials response self w =
     (let (c, w) = is_cancelled w in
      if c then Some (CancelledError, self, w)
      else
        let status = response_status D response in
          if \<not> ok status \<and> IsRetriable D status then
            let (st, w) = BackoffForAttemptAsync owner status (attempt self) w
            in Some (st, self\<lparr>attempt := attempt self + 1\<rparr>, w)
          else
            case response of
              Inl _ \<Rightarrow> None
            | Inr r \<Rightarrow>
                let payld = payload r in
                (case FindTag D payld kListBucketOpenTag 0 False of
                  Inl e \<Rightarrow> Some (e, self, w)
                | Inr start_pos \<Rightarrow>
                    (case GetTag D payld ''<KeyCount>'' ''</KeyCount>'' start_pos of
                       Inl e \<Rightarrow> Some (e, self, w)
                     | Inr tag_and_pos \<Rightarrow>
                         (case SimpleAtoi D (tag tag_and_pos) of
                            None \<Rightarrow>
                              Some (InvalidArgumentError
                                      (''Malformed KeyCount '' @ tag tag_and_pos), self, w)
                          | Some keycount \<Rightarrow>
                              (case ListTask_emit_keys D payld keycount tag_and_pos self w of
                                 (Inl e, self, w) \<Rightarrow> Some (e, self, w)
                               | (Inr tag_and_pos, self, w) \<Rightarrow>
                                   let self = self\<lparr>attempt := 0\<rparr> in
                                   (case GetTag D payld ''<IsTruncated>'' ''</IsTruncated>''
                                           start_pos of
                                      Inl e \<Rightarrow> Some (e, self, w)
                                    | Inr tag_and_pos \<Rightarrow>
                                        if tag tag_and_pos = ''true'' then
                                          (case GetTag D payld ''<NextContinuationToken>''
                                                  ''</NextContinuationToken>'' start_pos of
                                             Inl e \<Rightarrow> Some (e, self, w)
                                           | Inr tag_and_pos \<Rightarrow>
                                               let self = self\<lparr>continuation_token :=
                                                                 tag tag_and_pos\<rparr>;
                                                   (self, w) = ListTask_IssueRequest owner
                                                                 maybe_credentials self w
                                               in Some (OkStatus, self, w))
                                        else
                                          let self = self\<lparr>continuation_token := []\<rparr>
                                          in Some (OkStatus,
                                                   emit [set_done, set_stopping] self, w)))))))"

definition ListTask_OnResponse ::
  "Deps \<Rightarrow> S3KeyValueStore \<Rightarrow> S3Credentials option Result \<Rightarrow> HttpResponse Result
     \<Rightarrow> ListTask \<Rightarrow> World \<Rightarrow> (ListTask \<times> World) option" where
  "ListTask_OnResponse D owner maybe_credentials response self w =
     (case ListTask_OnResponseImpl D owner maybe_credentials response self w of
        None \<Rightarrow> None
      | Some (status, self, w) \<Rightarrow>
          if IsCancelled status then Some (emit [set_done, set_stopping] self, w)
          else if \<not> ok status then Some (emit [set_error status, set_stopping] self, w)
          else Some (self, w))"

text \<open>
  \<^verbatim>\<open>ListTask::Admit\<close> announces the start to the receiver and issues the first request;
  \<^verbatim>\<open>S3KeyValueStore::ListImpl\<close> elides the task for an empty range. The rate limiter and
  the admission queue, which sit between the two, only delay the call.
\<close>

definition ListTask_Admit ::
  "S3KeyValueStore \<Rightarrow> S3Credentials option Result \<Rightarrow> ListTask \<Rightarrow> World \<Rightarrow> ListTask \<times> World" where
  "ListTask_Admit owner maybe_credentials self w =
     ListTask_IssueRequest owner maybe_credentials (emit [set_starting] self) w"

definition S3KeyValueStore_ListImpl ::
  "S3KeyValueStore \<Rightarrow> S3Credentials option Result \<Rightarrow> ListOptions \<Rightarrow> World \<Rightarrow> ListTask \<times> World" where
  "S3KeyValueStore_ListImpl owner maybe_credentials opts w =
     (let state = \<lparr>attempt = 0, start_time = 0, list_options = opts, receiver = [],
                   list_resource = endpoint owner @ ''/'', continuation_token = []\<rparr>
      in if KeyRange_empty (key_range opts)
         then (emit [set_starting, set_done, set_stopping] state, w)
         else ListTask_Admit owner maybe_credentials state w)"

section \<open>A reference implementation of the collaborators\<close>

text \<open>
  The theorems below hold for every implementation of the collaborators. To run the
  tasks on concrete inputs one implementation is fixed here.

  Modelled from the spec: \<^verbatim>\<open>HttpResponseCodeToStatus\<close> (tensorstore/internal/http) and
  \<^verbatim>\<open>IsRetriable\<close> (tensorstore/kvstore/gcs) are not among the sources. The spec says
  that every 2xx is a success, that 408, 429 and 5xx are retriable, as are the
  transport-level failures (Unavailable, DeadlineExceeded), and that the remaining 3xx
  and 4xx are terminal.
\<close>

definition ref_HttpResponseCodeToStatus :: "HttpResponse \<Rightarrow> Status" where
  "ref_HttpResponseCodeToStatus r =
     (let c = status_code r; m = ''HTTP response code: '' @ StrCat_int c in
      if 200 \<le> c \<and> c < 300 then OkStatus
      else if c = 408 \<or> c = 429 \<or> (500 \<le> c \<and> c < 600) then \<lparr>code = kUnavailable, message = m\<rparr>
      else if c = 404 then \<lparr>code = kNotFound, message = m\<rparr>
      else if c = 401 \<or> c = 403 then \<lparr>code = kPermissionDenied, message = m\<rparr>
      else if c = 304 \<or> c = 412 then \<lparr>code = kFailedPrecondition, message = m\<rparr>
      else \<lparr>code = kUnknown, message = m\<rparr>)"

definition ref_IsRetriable :: "Status \<Rightarrow> bool" where
  "ref_IsRetriable st = (code st = kDeadlineExceeded \<or> code st = kUnavailable)"

text \<open>
  Modelled from the spec: the header parsers and the byte-range helpers are not among
  the sources. The generation is the response's \<^verbatim>\<open>ETag\<close>; \<^verbatim>\<open>Content-Range\<close> has the
  form \<^verbatim>\<open>bytes A-B/C\<close>; a bound of a byte range is unset when it is \<open>-1\<close>, and the
  request has a total size when both bounds are set.
\<close>

definition parse_nat :: "string \<Rightarrow> nat option" where
  "parse_nat s =
     (if s \<noteq> [] \<and> list_all (\<lambda>c. CHR ''0'' \<le> c \<and> c \<le> CHR ''9'') s
      then Some (foldl (\<lambda>n c. 10 * n + (of_char c - 48)) 0 s)
      else None)"

definition ref_StorageGenerationFromHeaders ::
  "(string \<times> string) list \<Rightarrow> StorageGeneration Result" where
  "ref_StorageGenerationFromHeaders hs =
     (case map_of hs ''etag'' of
        None \<Rightarrow> Inl \<lparr>code = kNotFound, message = ''etag not found in response headers''\<rparr>
      | Some e \<Rightarrow> Inr (Value e))"

definition ref_ParseContentRangeHeader :: "HttpResponse \<Rightarrow> (nat \<times> nat \<times> nat) Result" where
  "ref_ParseContentRangeHeader r =
     (let bad = Inl \<lparr>code = kFailedPrecondition,
                     message = ''Unexpected Content-Range header received''\<rparr> in
      case map_of (headers r) ''content-range'' of
        None \<Rightarrow> bad
      | Some v \<Rightarrow>
          if take 6 v \<noteq> ''bytes '' then bad
          else
            let rest = drop 6 v;
                a = takeWhile (\<lambda>x. x \<noteq> CHR ''-'') rest;
                rest = drop 1 (dropWhile (\<lambda>x. x \<noteq> CHR ''-'') rest);
                b = takeWhile (\<lambda>x. x \<noteq> CHR ''/'') rest;
                c = drop 1 (dropWhile (\<lambda>x. x \<noteq> CHR ''/'') rest)
            in (case (parse_nat a, parse_nat b, parse_nat c) of
                  (Some a, Some b, Some c) \<Rightarrow> Inr (a, b, c)
                | _ \<Rightarrow> bad))"

definition ref_byte_range_size :: "OptionalByteRangeRequest \<Rightarrow> int" where
  "ref_byte_range_size r =
     (if inclusive_min r \<noteq> - 1 \<and> exclusive_max r \<noteq> - 1
      then exclusive_max r - inclusive_min r else - 1)"

definition ref_ByteRangeToString :: "OptionalByteRangeRequest \<Rightarrow> string" where
  "ref_ByteRangeToString r =
     ''['' @ StrCat_int (inclusive_min r) @ '', '' @ StrCat_int (exclusive_max r) @ '')''"

definition ref_Validate :: "OptionalByteRangeRequest \<Rightarrow> nat \<Rightarrow> ByteRange Result" where
  "ref_Validate r n =
     (let lo = (if inclusive_min r = - 1 then 0 else inclusive_min r);
          hi = (if exclusive_max r = - 1 then int n else exclusive_max r)
      in if 0 \<le> lo \<and> lo \<le> hi \<and> hi \<le> int n
         then Inr \<lparr>br_inclusive_min = nat lo, br_exclusive_max = nat hi\<rparr>
         else Inl (OutOfRangeError
                     (''Requested byte range '' @ ref_ByteRangeToString r
                      @ '' is not valid for value of size '' @ StrCat_nat n)))"

text \<open>
  Modelled from the spec: \<^verbatim>\<open>FindTag\<close> and \<^verbatim>\<open>GetTag\<close> (tensorstore/kvstore/s3) are
  not among the sources. The spec says that element extraction is by textual tag
  matching: \<open>FindTag\<close> finds the first occurrence of the tag at or after a position and
  returns where it starts or where it ends; \<open>GetTag\<close> returns the text between an opening
  and a closing tag and the position after the closing tag.
\<close>

fun find_at :: "string \<Rightarrow> string \<Rightarrow> nat \<Rightarrow> nat option" where
  "find_at t [] i = (if t = [] then Some i else None)"
| "find_at t (c # cs) i =
     (if take (length t) (c # cs) = t then Some i else find_at t cs (Suc i))"

definition ref_FindTag :: "string \<Rightarrow> string \<Rightarrow> nat \<Rightarrow> bool \<Rightarrow> nat Result" where
  "ref_FindTag data t p start =
     (case find_at t (drop p data) p of
        Some i \<Rightarrow> Inr (if start then i else i + length t)
      | None \<Rightarrow> Inl (InvalidArgumentError
                       (''Malformed List Response XML: can't find '' @ t)))"

definition ref_GetTag :: "string \<Rightarrow> string \<Rightarrow> string \<Rightarrow> nat \<Rightarrow> TagAndPosition Result" where
  "ref_GetTag data open_tag close_tag p =
     (case ref_FindTag data open_tag p False of
        Inl e \<Rightarrow> Inl e
      | Inr opentag_pos \<Rightarrow>
          (case ref_FindTag data close_tag opentag_pos True of
             Inl e \<Rightarrow> Inl e
           | Inr closetag_pos \<Rightarrow>
               Inr \<lparr>tag = take (closetag_pos - opentag_pos) (drop opentag_pos data),
                    pos = closetag_pos + length close_tag\<rparr>))"

definition ref_deps :: Deps where
  "ref_deps =
     \<lparr>HttpResponseCodeToStatus = ref_HttpResponseCodeToStatus,
      IsRetriable = ref_IsRetriable,
      ParseContentRangeHeader = ref_ParseContentRangeHeader,
      StorageGenerationFromHeaders = ref_StorageGenerationFromHeaders,
      Validate = ref_Validate,
      byte_range_size = ref_byte_range_size,
      ByteRangeToString = ref_ByteRangeToString,
      FindTag = ref_FindTag,
      GetTag = ref_GetTag,
      SimpleAtoi = parse_nat\<rparr>"

text \<open>Concrete inputs: a driver, a world whose clock starts at 1000, fresh tasks.\<close>

definition owner0 :: S3KeyValueStore where
  "owner0 =
     \<lparr>endpoint = ''https://bucket.s3.us-east-1.amazonaws.com'',
      host = ''bucket.s3.us-east-1.amazonaws.com'', aws_region = ''us-east-1'',
      requester_pays = False, max_retries = 3, initial_delay = Seconds 1,
      max_delay = Seconds 32\<rparr>"

definition world0 :: World where
  "world0 =
     \<lparr>clock = (\<lambda>n. 1000 + int n), ticks = 0, entropy = (\<lambda>n. 7), draws = 0,
      cancel_signal = (\<lambda>n. False), loads = 0, transport = [], timers = [],
      s3_bytes_read = 0, s3_bytes_written = 0, s3_retries = 0,
      s3_read_latency_ms = [], s3_write_latency_ms = []\<rparr>"

definition fresh_promise :: "'a Promise" where
  "fresh_promise = \<lparr>result = None, needed = True\<rparr>"

definition read_task0 :: "StorageGeneration \<Rightarrow> OptionalByteRangeRequest \<Rightarrow> ReadTask" where
  "read_task0 g br =
     \<lparr>attempt = 0, start_time = 0,
      options = \<lparr>if_equal = Unknown, if_not_equal = g, byte_range = br\<rparr>,
      promise = fresh_promise,
      read_url = ''https://bucket.s3.us-east-1.amazonaws.com/key''\<rparr>"

definition write_task0 :: "StorageGeneration \<Rightarrow> WriteTask" where
  "write_task0 g =
     \<lparr>attempt = 0, start_time = 0, options = \<lparr>if_equal = g\<rparr>, promise = fresh_promise,
      credentials = no_credentials, encoded_object_name = ''key'', value_cord = ''abc'',
      upload_url = []\<rparr>"

definition delete_task0 :: "StorageGeneration \<Rightarrow> DeleteTask" where
  "delete_task0 g =
     \<lparr>attempt = 0, start_time = 0, options = \<lparr>if_equal = g\<rparr>, promise = fresh_promise,
      credentials = no_credentials,
      resource = ''https://bucket.s3.us-east-1.amazonaws.com/key''\<rparr>"

definition response0 :: "int \<Rightarrow> HttpResponse" where
  "response0 c = \<lparr>status_code = c, payload = [], headers = []\<rparr>"

definition list_options0 :: ListOptions where
  "list_options0 =
     \<lparr>key_range = \<lparr>kr_inclusive_min = ''abc'', kr_exclusive_max = ''abd''\<rparr>,
      strip_prefix_length = 2\<rparr>"

definition list_task0 :: ListTask where
  "list_task0 =
     \<lparr>attempt = 0, start_time = 0, list_options = list_options0, receiver = [set_starting],
      list_resource = ''https://bucket.s3.us-east-1.amazonaws.com/'', continuation_token = []\<rparr>"

text \<open>
  A listing page with the keys \<open>abb\<close> and \<open>abc\<close>, an error body, a partial-content
  response and a transport failure.
\<close>

definition page0 :: HttpResponse where
  "page0 =
     \<lparr>status_code = 200,
      payload = kListBucketOpenTag @
        ''<KeyCount>2</KeyCount><Contents><Key>abb</Key></Contents><Contents><Key>abc</Key></Contents><IsTruncated>false</IsTruncated></ListBucketResult>'',
      headers = []\<rparr>"

definition denied0 :: HttpResponse where
  "denied0 =
     \<lparr>status_code = 403,
      payload = ''<Error><Code>AccessDenied</Code></Error>'',
      headers = []\<rparr>"


definition unavailable0 :: Status where
  "unavailable0 = \<lparr>code = kUnavailable, message = ''connect''\<rparr>"

section \<open>Expected results, in the words of the specification\<close>

text \<open>
  The error of a task whose retry budget is spent: its code is Aborted, its message names
  the number of failed attempts and carries the message of the original status.
\<close>

definition retries_exhausted :: "int \<Rightarrow> Status \<Rightarrow> Status" where
  "retries_exhausted n status =
     \<lparr>code = kAborted,
      message = (if message status = []
                 then ''All '' @ StrCat_int n @ '' retry attempts failed''
                 else ''All '' @ StrCat_int n @ '' retry attempts failed'' @ '': ''
                      @ message status)\<rparr>"

section \<open>Properties of ReadTask\<close>

lemma ReadTask_Retry_issues:
  assumes "result_needed (promise self)"
  shows "ReadTask_Retry owner (Inr c) self w =
           (self\<lparr>start_time := clock w (ticks w)\<rparr>,
            w\<lparr>ticks := Suc (ticks w),
              transport := transport w @
                [BuildRequest
                   (MaybeAddRangeHeader (byte_range (options self))
                     (MaybeAddRequesterPayer (requester_pays owner)
                       (EnableAcceptEncoding
                         (snd (AddGenerationHeader
                                 (snd (AddGenerationHeader
                                         (NewS3RequestBuilder ''GET'' (read_url self))
                                         ''if-none-match'' (if_not_equal (options self))))
                                 ''if-match'' (if_equal (options self)))))))
                   (host owner) (case c of Some cr \<Rightarrow> cr | None \<Rightarrow> no_credentials)
                   (aws_region owner) kEmptySha256 (clock w (ticks w))]\<rparr>)"
  using assms
  by (simp add: ReadTask_Retry_def Let_def absl_Now_def IssueRequest_def BuildRequest_def)

lemma ReadTask_OnResponse_finish:
  assumes "result_needed (promise self)"
      and "status_code r = 412 \<or> status_code r = 404 \<or> status_code r = 304 \<or>
           ok (HttpResponseCodeToStatus D r)"
  shows "ReadTask_OnResponse D owner (Inr r) self w =
           Some (self\<lparr>promise := SetResult (fst (ReadTask_FinishResponse D r self w))
                                      (promise self)\<rparr>,
                 snd (ReadTask_FinishResponse D r self w))"
  using assms
  by (auto simp: ReadTask_OnResponse_def ReadTask_response_status_def Let_def OkStatus_def
      ok_def split: prod.splits)

lemma ReadTask_FinishResponse_special:
  assumes "status_code r = 204 \<or> status_code r = 404 \<or> status_code r = 412 \<or>
           status_code r = 304"
  shows "fst (ReadTask_FinishResponse D r self w) =
           Inr \<lparr>state = (if status_code r = 204 \<or> status_code r = 404
                          then kMissing else kUnspecified),
                rr_value = [],
                stamp = \<lparr>generation =
                           (if status_code r = 204 \<or> status_code r = 404 then NoValue
                            else if status_code r = 412 then Unknown
                            else if_not_equal (options self)),
                         time = start_time self\<rparr>\<rparr>"
  using assms
  by (auto simp: ReadTask_FinishResponse_def Let_def absl_Now_def split: prod.splits)

text \<open>
  Claim C1. A read whose promise still wants a result runs \<open>Retry\<close>, which reads the clock
  once and issues one GET stamped with that reading. When the response then carries
  status 404, 412 or 304, or status 204 and the status classifier accepts it, the promise
  receives a ReadResult with an empty value: for 204 and 404 the state is Missing and the
  generation NoValue; for 412 the state is Unspecified and the generation Unknown; for
  304 the state is Unspecified and the generation is the caller's \<open>if_not_equal\<close>. In
  every case the time of the stamp is the clock reading that \<open>Retry\<close> took just before it
  issued the request.
\<close>

theorem C1_read_status_mapping:
  assumes needed: "result_needed (promise self)"
      and unset: "result (promise self) = None"
      and resp: "status_code r = 404 \<or> status_code r = 412 \<or> status_code r = 304 \<or>
                 (status_code r = 204 \<and> ok (HttpResponseCodeToStatus D r))"
      and retry: "ReadTask_Retry owner (Inr c) self w = (self1, w1)"
  shows "\<exists>self2 w2.
           ReadTask_OnResponse D owner (Inr r) self1 w1 = Some (self2, w2) \<and>
           result (promise self2) =
             Some (Inr \<lparr>state = (if status_code r = 204 \<or> status_code r = 404
                                  then kMissing else kUnspecified),
                        rr_value = [],
                        stamp = \<lparr>generation =
                                   (if status_code r = 204 \<or> status_code r = 404 then NoValue
                                    else if status_code r = 412 then Unknown
                                    else if_not_equal (options self)),
                                 time = clock w (ticks w)\<rparr>\<rparr>) \<and>
           (\<exists>req. transport w1 = transport w @ [req] \<and> req_time req = clock w (ticks w)) \<and>
           ticks w1 = Suc (ticks w)"
proof -
  have self1: "self1 = self\<lparr>start_time := clock w (ticks w)\<rparr>"
    and w1: "ticks w1 = Suc (ticks w)"
            "\<exists>req. transport w1 = transport w @ [req] \<and> req_time req = clock w (ticks w)"
    using retry ReadTask_Retry_issues [OF needed, of owner c w]
    by (auto simp: BuildRequest_def)
  have needed1: "result_needed (promise self1)"
    using needed self1 by (simp add: result_needed_def)
  have accepted: "status_code r = 412 \<or> status_code r = 404 \<or> status_code r = 304 \<or>
                  ok (HttpResponseCodeToStatus D r)"
    using resp by blast
  have special: "status_code r = 204 \<or> status_code r = 404 \<or> status_code r = 412 \<or>
                 status_code r = 304"
    using resp by blast
  have fin: "fst (ReadTask_FinishResponse D r self1 w1) =
               Inr \<lparr>state = (if status_code r = 204 \<or> status_code r = 404
                              then kMissing else kUnspecified),
                    rr_value = [],
                    stamp = \<lparr>generation =
                               (if status_code r = 204 \<or> status_code r = 404 then NoValue
                                else if status_code r = 412 then Unknown
                                else if_not_equal (options self)),
                             time = clock w (ticks w)\<rparr>\<rparr>"
    using ReadTask_FinishResponse_special [OF special, of D self1 w1] self1 by simp
  have "result (promise (self1\<lparr>promise := SetResult (fst (ReadTask_FinishResponse D r self1 w1))
                                          (promise self1)\<rparr>)) =
          Some (fst (ReadTask_FinishResponse D r self1 w1))"
    using unset self1 by (simp add: SetResult_def)
  with ReadTask_OnResponse_finish [OF needed1 accepted, of owner w1] fin w1
  show ?thesis by simp
qed

theorem C1_read_status_mapping_witness:
  "result_needed (promise (read_task0 (Value ''e1'') \<lparr>inclusive_min = 0, exclusive_max = - 1\<rparr>)) \<and>
   result (promise (read_task0 (Value ''e1'') \<lparr>inclusive_min = 0, exclusive_max = - 1\<rparr>)) = None \<and>
   status_code (response0 304) = 304 \<and>
   (\<exists>self2 w2.
      ReadTask_OnResponse ref_deps owner0 (Inr (response0 304))
        (fst (ReadTask_Retry owner0 (Inr None)
               (read_task0 (Value ''e1'') \<lparr>inclusive_min = 0, exclusive_max = - 1\<rparr>) world0))
        (snd (ReadTask_Retry owner0 (Inr None)
               (read_task0 (Value ''e1'') \<lparr>inclusive_min = 0, exclusive_max = - 1\<rparr>) world0))
        = Some (self2, w2) \<and>
      result (promise self2) =
        Some (Inr \<lparr>state = kUnspecified, rr_value = [],
                   stamp = \<lparr>generation = Value ''e1'', time = 1000\<rparr>\<rparr>))"
proof -
  let ?t = "read_task0 (Value ''e1'') \<lparr>inclusive_min = 0, exclusive_max = - 1\<rparr>"
  have a: "result_needed (promise ?t)"
    by (simp add: read_task0_def fresh_promise_def result_needed_def)
  have b: "result (promise ?t) = None"
    by (simp add: read_task0_def fresh_promise_def)
  have c: "status_code (response0 304) = 404 \<or> status_code (response0 304) = 412 \<or>
           status_code (response0 304) = 304 \<or>
           (status_code (response0 304) = 204 \<and>
            ok (HttpResponseCodeToStatus ref_deps (response0 304)))"
    by (simp add: response0_def)
  have d: "ReadTask_Retry owner0 (Inr None) ?t world0 =
             (fst (ReadTask_Retry owner0 (Inr None) ?t world0),
              snd (ReadTask_Retry owner0 (Inr None) ?t world0))"
    by simp
  from C1_read_status_mapping [OF a b c d] a b show ?thesis
    by (auto simp: response0_def read_task0_def world0_def)
qed




section \<open>Properties of WriteTask\<close>

lemma BuildRequest_sel:
  "builder (BuildRequest b h c g p t) = b"
  "req_time (BuildRequest b h c g p t) = t"
  "req_body (BuildRequest b h c g p t) = []"
  by (simp_all add: BuildRequest_def)

lemma http_method_builder:
  "http_method (NewS3RequestBuilder m u) = m"
  "http_method (AddHeader hdr b) = http_method b"
  "http_method (AddQueryParameter k v b) = http_method b"
  "http_method (MaybeAddRequesterPayer rp b) = http_method b"
  "http_method (snd (AddGenerationHeader b hdr gen)) = http_method b"
  by (simp_all add: NewS3RequestBuilder_def AddHeader_def AddQueryParameter_def
      MaybeAddRequesterPayer_def AddGenerationHeader_def Let_def)

lemma WriteTask_DoPut_eq:
  "WriteTask_DoPut owner self w =
     (self\<lparr>upload_url := endpoint owner @ ''/'' @ encoded_object_name self,
           start_time := clock w (ticks w)\<rparr>,
      w\<lparr>ticks := Suc (ticks w),
        transport := transport w @
          [(BuildRequest
              (MaybeAddRequesterPayer (requester_pays owner)
                (AddHeader (''Content-Length: '' @ StrCat_nat (length (value_cord self)))
                  (AddHeader ''Content-Type: application/octet-stream''
                    (NewS3RequestBuilder ''PUT''
                       (endpoint owner @ ''/'' @ encoded_object_name self)))))
              (host owner) (credentials self) (aws_region owner)
              (payload_sha256 (value_cord self)) (clock w (ticks w)))
           \<lparr>req_body := value_cord self\<rparr>]\<rparr>)"
  by (simp add: WriteTask_DoPut_def Let_def absl_Now_def IssueRequest_def)

lemma WriteTask_DoPut_issues:
  "\<exists>req. WriteTask_DoPut owner self w =
           (self\<lparr>upload_url := endpoint owner @ ''/'' @ encoded_object_name self,
                 start_time := clock w (ticks w)\<rparr>,
            w\<lparr>ticks := Suc (ticks w), transport := transport w @ [req]\<rparr>) \<and>
         http_method (builder req) = ''PUT'' \<and> req_body req = value_cord self \<and>
         req_time req = clock w (ticks w)"
  unfolding WriteTask_DoPut_eq
  by (intro exI conjI, rule refl) (simp_all add: BuildRequest_sel http_method_builder)

lemma WriteTask_OnResponse_error:
  assumes "result_needed (promise self)"
      and "\<not> ok (HttpResponseCodeToStatus D r)"
      and "\<not> IsRetriable D (HttpResponseCodeToStatus D r)"
  shows "WriteTask_OnResponse D owner (Inr r) self w =
           Some (self\<lparr>promise := SetResult (Inl (HttpResponseCodeToStatus D r)) (promise self)\<rparr>, w)"
  using assms by (simp add: WriteTask_OnResponse_def response_status_def Let_def)

lemma WriteTask_OnResponse_retriable:
  assumes "result_needed (promise self)"
      and "\<not> ok (HttpResponseCodeToStatus D r)"
      and "IsRetriable D (HttpResponseCodeToStatus D r)"
  shows "WriteTask_OnResponse D owner (Inr r) self w =
           (let b = BackoffForAttemptAsync owner (HttpResponseCodeToStatus D r) (attempt self) w
            in if ok (fst b) then Some (self\<lparr>attempt := attempt self + 1\<rparr>, snd b)
               else Some (self\<lparr>attempt := attempt self + 1,
                               promise := SetResult (Inl (fst b)) (promise self)\<rparr>, snd b))"
  using assms
  by (simp add: WriteTask_OnResponse_def response_status_def Let_def split: prod.splits)

text \<open>
  Claim C2, as the code has it. \<^verbatim>\<open>WriteTask::OnResponse\<close> passes every response to the
  status classifier, 404 included; \<^verbatim>\<open>ReadTask::OnResponse\<close> and
  \<^verbatim>\<open>DeleteTask::OnResponse\<close> exempt 404 first. So whenever the classifier rejects 404, a
  PUT answered with 404 never puts a generation in the promise: the promise receives an
  error status (the classifier's own when it is not retriable), or the request is
  retried. The branch of \<open>FinishResponse\<close> that would return
  \<open>{generation = Unknown, time = start_time}\<close> exists, and is not reached.
\<close>

theorem C2_put_404_surfaces_as_error:
  assumes needed: "result_needed (promise self)"
      and unset: "result (promise self) = None"
      and notfound: "status_code r = 404"
      and rejected: "\<not> ok (HttpResponseCodeToStatus D r)"
  shows "(\<exists>self2 w2. WriteTask_OnResponse D owner (Inr r) self w = Some (self2, w2) \<and>
                     (\<forall>g. result (promise self2) \<noteq> Some (Inr g))) \<and>
         (\<not> IsRetriable D (HttpResponseCodeToStatus D r) \<longrightarrow>
            WriteTask_OnResponse D owner (Inr r) self w =
              Some (self\<lparr>promise := (promise self)
                            \<lparr>result := Some (Inl (HttpResponseCodeToStatus D r))\<rparr>\<rparr>, w)) \<and>
         (if_equal (options self) \<noteq> Unknown \<longrightarrow>
            WriteTask_FinishResponse D r self w =
              (Inr \<lparr>generation = Unknown, time = start_time self\<rparr>, w))"
proof (intro conjI impI)
  show "\<exists>self2 w2. WriteTask_OnResponse D owner (Inr r) self w = Some (self2, w2) \<and>
                    (\<forall>g. result (promise self2) \<noteq> Some (Inr g))"
  proof (cases "IsRetriable D (HttpResponseCodeToStatus D r)")
    case True
    show ?thesis
      using WriteTask_OnResponse_retriable [OF needed rejected True, of owner w] unset
      by (auto simp: Let_def SetResult_def)
  next
    case False
    show ?thesis
      using WriteTask_OnResponse_error [OF needed rejected False, of owner w] unset
      by (simp add: SetResult_def)
  qed
next
  assume "\<not> IsRetriable D (HttpResponseCodeToStatus D r)"
  then show "WriteTask_OnResponse D owner (Inr r) self w =
              Some (self\<lparr>promise := (promise self)
                            \<lparr>result := Some (Inl (HttpResponseCodeToStatus D r))\<rparr>\<rparr>, w)"
    using WriteTask_OnResponse_error [OF needed rejected, of owner w] unset
    by (simp add: SetResult_def)
next
  assume "if_equal (options self) \<noteq> Unknown"
  then show "WriteTask_FinishResponse D r self w =
              (Inr \<lparr>generation = Unknown, time = start_time self\<rparr>, w)"
    using notfound by (simp add: WriteTask_FinishResponse_def IsUnknown_def Let_def)
qed

theorem C2_put_404_surfaces_as_error_witness:
  "result_needed (promise (write_task0 NoValue)) \<and>
   result (promise (write_task0 NoValue)) = None \<and>
   status_code (response0 404) = 404 \<and>
   \<not> ok (HttpResponseCodeToStatus ref_deps (response0 404)) \<and>
   WriteTask_OnResponse ref_deps owner0 (Inr (response0 404)) (write_task0 NoValue) world0 =
     Some ((write_task0 NoValue)\<lparr>promise :=
              \<lparr>result = Some (Inl \<lparr>code = kNotFound, message = ''HTTP response code: 404''\<rparr>),
               needed = True\<rparr>\<rparr>, world0)"
proof -
  have a: "result_needed (promise (write_task0 NoValue))"
    by (simp add: write_task0_def fresh_promise_def result_needed_def)
  have b: "result (promise (write_task0 NoValue)) = None"
    by (simp add: write_task0_def fresh_promise_def)
  have c: "status_code (response0 404) = 404" by (simp add: response0_def)
  have st0: "ref_HttpResponseCodeToStatus (response0 404) =
               \<lparr>code = kNotFound, message = ''HTTP response code: 404''\<rparr>"
    by (simp add: ref_HttpResponseCodeToStatus_def response0_def Let_def
        StrCat_int_def StrCat_nat.simps digit_char_def)
  have st: "HttpResponseCodeToStatus ref_deps (response0 404) =
              \<lparr>code = kNotFound, message = ''HTTP response code: 404''\<rparr>"
    by (simp add: ref_deps_def st0)
  have d: "\<not> ok (HttpResponseCodeToStatus ref_deps (response0 404))"
    by (simp add: st ok_def)
  have e: "\<not> IsRetriable ref_deps (HttpResponseCodeToStatus ref_deps (response0 404))"
    by (simp add: st0 ref_deps_def ref_IsRetriable_def)
  from C2_put_404_surfaces_as_error [OF a b c d, of owner0 world0] a b c d e st show ?thesis
    by (simp add: write_task0_def fresh_promise_def)
qed

text \<open>
  Claim C3, amended. For a write with \<open>if_equal = NoValue\<close> whose promise is unset: when
  the HEAD probe is answered with 304 or 412, \<open>OnPeekResponse\<close> completes the promise with
  \<open>{generation = Unknown}\<close>, stamped with the clock reading it takes, and issues no
  request; when the probe is answered with 200, the promise stays unset and one PUT
  carrying the value is issued.
\<close>

theorem C3_peek_no_value:
  assumes novalue: "if_equal (options self) = NoValue"
      and unset: "result (promise self) = None"
  shows "(status_code r = 304 \<or> status_code r = 412 \<longrightarrow>
            WriteTask_OnPeekResponse owner (Inr r) self w =
              (self\<lparr>promise := (promise self)
                       \<lparr>result := Some (Inr \<lparr>generation = Unknown,
                                               time = clock w (ticks w)\<rparr>)\<rparr>\<rparr>,
               w\<lparr>ticks := Suc (ticks w)\<rparr>)) \<and>
         (status_code r = 200 \<longrightarrow>
            (\<exists>self' w' req.
               WriteTask_OnPeekResponse owner (Inr r) self w = (self', w') \<and>
               result (promise self') = None \<and>
               transport w' = transport w @ [req] \<and>
               http_method (builder req) = ''PUT'' \<and> req_body req = value_cord self))"
proof (intro conjI impI)
  assume "status_code r = 304 \<or> status_code r = 412"
  then show "WriteTask_OnPeekResponse owner (Inr r) self w =
              (self\<lparr>promise := (promise self)
                       \<lparr>result := Some (Inr \<lparr>generation = Unknown,
                                               time = clock w (ticks w)\<rparr>)\<rparr>\<rparr>,
               w\<lparr>ticks := Suc (ticks w)\<rparr>)"
    using unset
    by (auto simp: WriteTask_OnPeekResponse_def Let_def absl_Now_def SetResult_def)
next
  assume "status_code r = 200"
  then have "WriteTask_OnPeekResponse owner (Inr r) self w =
               WriteTask_DoPut owner self (w\<lparr>ticks := Suc (ticks w)\<rparr>)"
    by (simp add: WriteTask_OnPeekResponse_def Let_def absl_Now_def)
  moreover obtain req where
    "WriteTask_DoPut owner self (w\<lparr>ticks := Suc (ticks w)\<rparr>) =
       (self\<lparr>upload_url := endpoint owner @ ''/'' @ encoded_object_name self,
             start_time := clock w (Suc (ticks w))\<rparr>,
        w\<lparr>ticks := Suc (Suc (ticks w)), transport := transport w @ [req]\<rparr>)"
    "http_method (builder req) = ''PUT''" "req_body req = value_cord self"
    using WriteTask_DoPut_issues [of owner self "w\<lparr>ticks := Suc (ticks w)\<rparr>"] by auto
  ultimately show "\<exists>self' w' req.
               WriteTask_OnPeekResponse owner (Inr r) self w = (self', w') \<and>
               result (promise self') = None \<and>
               transport w' = transport w @ [req] \<and>
               http_method (builder req) = ''PUT'' \<and> req_body req = value_cord self"
    using unset by simp
qed

theorem C3_peek_no_value_witness:
  "if_equal (options (write_task0 NoValue)) = NoValue \<and>
   result (promise (write_task0 NoValue)) = None \<and>
   status_code (response0 412) = 412 \<and> status_code (response0 200) = 200 \<and>
   WriteTask_OnPeekResponse owner0 (Inr (response0 412)) (write_task0 NoValue) world0 =
     ((write_task0 NoValue)\<lparr>promise := (promise (write_task0 NoValue))
         \<lparr>result := Some (Inr \<lparr>generation = Unknown, time = 1000\<rparr>)\<rparr>\<rparr>,
      world0\<lparr>ticks := 1\<rparr>) \<and>
   (\<exists>self' w' req.
      WriteTask_OnPeekResponse owner0 (Inr (response0 200)) (write_task0 NoValue) world0 =
        (self', w') \<and>
      result (promise self') = None \<and> transport w' = [req] \<and>
      http_method (builder req) = ''PUT'')"
proof -
  have a: "if_equal (options (write_task0 NoValue)) = NoValue"
    by (simp add: write_task0_def)
  have b: "result (promise (write_task0 NoValue)) = None"
    by (simp add: write_task0_def fresh_promise_def)
  have c: "status_code (response0 412) = 412" "status_code (response0 200) = 200"
    by (simp_all add: response0_def)
  have "WriteTask_OnPeekResponse owner0 (Inr (response0 412)) (write_task0 NoValue) world0 =
     ((write_task0 NoValue)\<lparr>promise := (promise (write_task0 NoValue))
         \<lparr>result := Some (Inr \<lparr>generation = Unknown, time = 1000\<rparr>)\<rparr>\<rparr>,
      world0\<lparr>ticks := 1\<rparr>)"
    using C3_peek_no_value [OF a b, of "response0 412" owner0 world0] c
    by (simp add: world0_def)
  moreover have "\<exists>self' w' req.
      WriteTask_OnPeekResponse owner0 (Inr (response0 200)) (write_task0 NoValue) world0 =
        (self', w') \<and>
      result (promise self') = None \<and> transport w' = [req] \<and>
      http_method (builder req) = ''PUT''"
    using C3_peek_no_value [OF a b, of "response0 200" owner0 world0] c
    by (auto simp: world0_def)
  ultimately show ?thesis using a b c by simp
qed

text \<open>
  Claim C3 as stated fails: a write with \<open>if_equal = NoValue\<close> whose HEAD probe is
  answered with 200 has, after \<open>OnPeekResponse\<close>, no result in its promise, and the
  transport has seen the HEAD and then a PUT.
\<close>

theorem C3_head_200_issues_put:
  "result (promise (fst (WriteTask_OnPeekResponse owner0 (Inr (response0 200))
                          (fst (WriteTask_Retry owner0 (Inr None) (write_task0 NoValue) world0))
                          (snd (WriteTask_Retry owner0 (Inr None) (write_task0 NoValue) world0)))))
     = None \<and>
   map (\<lambda>req. http_method (builder req))
     (transport (snd (WriteTask_OnPeekResponse owner0 (Inr (response0 200))
                        (fst (WriteTask_Retry owner0 (Inr None) (write_task0 NoValue) world0))
                        (snd (WriteTask_Retry owner0 (Inr None) (write_task0 NoValue) world0)))))
     = [''HEAD'', ''PUT'']"
  by (simp add: WriteTask_OnPeekResponse_def WriteTask_Retry_def WriteTask_DoPut_eq
      write_task0_def response0_def world0_def owner0_def fresh_promise_def
      result_needed_def IsUnknown_def IsNoValue_def Let_def absl_Now_def IssueRequest_def
      BuildRequest_sel http_method_builder)

section \<open>Properties of DeleteTask and of the precondition probe\<close>

lemma DeleteTask_DoDelete_eq:
  "DeleteTask_DoDelete owner self w =
     (self\<lparr>start_time := clock w (ticks w)\<rparr>,
      w\<lparr>ticks := Suc (ticks w),
        transport := transport w @
          [BuildRequest
              (MaybeAddRequesterPayer (requester_pays owner)
                (NewS3RequestBuilder ''DELETE'' (resource self)))
              (host owner) (credentials self) (aws_region owner) kEmptySha256
              (clock w (ticks w))]\<rparr>)"
  by (simp add: DeleteTask_DoDelete_def Let_def absl_Now_def IssueRequest_def BuildRequest_def)

lemma DeleteTask_DoDelete_issues:
  "\<exists>req. DeleteTask_DoDelete owner self w =
           (self\<lparr>start_time := clock w (ticks w)\<rparr>,
            w\<lparr>ticks := Suc (ticks w), transport := transport w @ [req]\<rparr>) \<and>
         http_method (builder req) = ''DELETE'' \<and> req_body req = [] \<and>
         req_time req = clock w (ticks w)"
  unfolding DeleteTask_DoDelete_eq
  by (intro exI conjI, rule refl) (simp_all add: BuildRequest_sel http_method_builder)

lemma DeleteTask_OnResponse_done:
  assumes "result_needed (promise self)"
      and "status_code r = 404 \<or> ok (HttpResponseCodeToStatus D r)"
  shows "DeleteTask_OnResponse D owner (Inr r) self w =
           Some (self\<lparr>promise := SetResult
                   (Inr \<lparr>generation =
                           (if status_code r = 404 \<and> if_equal (options self) \<noteq> NoValue
                               \<and> if_equal (options self) \<noteq> Unknown
                            then Unknown else NoValue),
                         time = start_time self\<rparr>) (promise self)\<rparr>, w)"
  using assms
  by (auto simp: DeleteTask_OnResponse_def DeleteTask_response_status_def Let_def
      OkStatus_def ok_def IsNoValue_def IsUnknown_def)

lemma DeleteTask_Retry_unconditional:
  assumes "result_needed (promise self)" and "if_equal (options self) = Unknown"
  shows "DeleteTask_Retry owner True (Inr c) self w =
           DeleteTask_DoDelete owner
             (case c of Some cr \<Rightarrow> self\<lparr>credentials := cr\<rparr> | None \<Rightarrow> self) w"
  using assms by (simp add: DeleteTask_Retry_def Let_def IsUnknown_def split: option.splits)

lemma unconditional_Delete_result:
  assumes needed: "result_needed (promise self)"
      and unset: "result (promise self) = None"
      and uncond: "if_equal (options self) = Unknown"
      and resp: "status_code r = 404 \<or> ok (HttpResponseCodeToStatus D r)"
  shows "\<exists>self' w'. unconditional_Delete D owner c r self w = Some (self', w') \<and>
           result (promise self') =
             Some (Inr \<lparr>generation = NoValue, time = clock w (ticks w)\<rparr>) \<and>
           (\<exists>req. transport w' = transport w @ [req] \<and> http_method (builder req) = ''DELETE'')"
proof -
  let ?s = "case c of Some cr \<Rightarrow> self\<lparr>credentials := cr\<rparr> | None \<Rightarrow> self"
  have s: "result_needed (promise ?s)" "result (promise ?s) = None"
          "if_equal (options ?s) = Unknown"
    using needed unset uncond by (auto split: option.splits)
  obtain req where
    del: "DeleteTask_DoDelete owner ?s w =
            (?s\<lparr>start_time := clock w (ticks w)\<rparr>,
             w\<lparr>ticks := Suc (ticks w), transport := transport w @ [req]\<rparr>)"
    and req: "http_method (builder req) = ''DELETE''"
    using DeleteTask_DoDelete_issues [of owner ?s w] by auto
  have n1: "result_needed (promise (?s\<lparr>start_time := clock w (ticks w)\<rparr>))"
    using s by (simp add: result_needed_def)
  show ?thesis
    unfolding unconditional_Delete_def
      DeleteTask_Retry_unconditional [OF needed uncond] del prod.case
      DeleteTask_OnResponse_done [OF n1 resp]
    using s req by (simp add: SetResult_def)
qed

text \<open>
  Claim C5, amended. When the HEAD probe of a write or of a delete ends in a
  transport-level failure (the \<^verbatim>\<open>Result\<close> holds an error status), \<open>OnPeekResponse\<close> hands
  that status to the promise and leaves the world as it was: no PUT or DELETE is issued,
  no retry is scheduled and the retries counter does not move. An unset promise then
  holds the error.
\<close>

theorem C5_probe_transport_failure:
  "WriteTask_OnPeekResponse owner (Inl st) wself w =
     (wself\<lparr>promise := SetResult (Inl st) (promise wself)\<rparr>, w) \<and>
   DeleteTask_OnPeekResponse owner (Inl st) dself w =
     (dself\<lparr>promise := SetResult (Inl st) (promise dself)\<rparr>, w) \<and>
   (result (promise wself) = None \<longrightarrow>
      result (promise (fst (WriteTask_OnPeekResponse owner (Inl st) wself w))) = Some (Inl st)) \<and>
   (result (promise dself) = None \<longrightarrow>
      result (promise (fst (DeleteTask_OnPeekResponse owner (Inl st) dself w))) = Some (Inl st))"
  by (simp add: WriteTask_OnPeekResponse_def DeleteTask_OnPeekResponse_def SetResult_def)

theorem C5_probe_transport_failure_witness:
  "result (promise (write_task0 (Value ''e1''))) = None \<and>
   result (promise (delete_task0 (Value ''e1''))) = None \<and>
   WriteTask_OnPeekResponse owner0 (Inl \<lparr>code = kUnavailable, message = ''connect''\<rparr>)
       (write_task0 (Value ''e1'')) world0 =
     ((write_task0 (Value ''e1''))\<lparr>promise := \<lparr>result = Some (Inl \<lparr>code = kUnavailable, message = ''connect''\<rparr>), needed = True\<rparr>\<rparr>, world0) \<and>
   DeleteTask_OnPeekResponse owner0 (Inl \<lparr>code = kUnavailable, message = ''connect''\<rparr>)
       (delete_task0 (Value ''e1'')) world0 =
     ((delete_task0 (Value ''e1''))\<lparr>promise := \<lparr>result = Some (Inl \<lparr>code = kUnavailable, message = ''connect''\<rparr>), needed = True\<rparr>\<rparr>, world0)"
  using C5_probe_transport_failure [of owner0 "\<lparr>code = kUnavailable, message = ''connect''\<rparr>"
              "write_task0 (Value ''e1'')" world0 "delete_task0 (Value ''e1'')"]
  by (simp add: write_task0_def delete_task0_def fresh_promise_def SetResult_def)

text \<open>
  Claim C5 as stated fails for an HTTP 5xx answer to the probe: it is a response, not a
  failed \<^verbatim>\<open>Result\<close>, and falls to the default branch of the switch. After a probe
  answered with 503 the promise of the write is unset and the transport has seen the HEAD
  and then the PUT; the same holds for the delete and its DELETE.
\<close>

theorem C5_probe_503_issues_phase2:
  "result (promise (fst (WriteTask_OnPeekResponse owner0 (Inr (response0 503))
                          (fst (WriteTask_Retry owner0 (Inr None) (write_task0 (Value ''e1'')) world0))
                          (snd (WriteTask_Retry owner0 (Inr None) (write_task0 (Value ''e1'')) world0)))))
     = None \<and>
   map (\<lambda>req. http_method (builder req))
     (transport (snd (WriteTask_OnPeekResponse owner0 (Inr (response0 503))
                        (fst (WriteTask_Retry owner0 (Inr None) (write_task0 (Value ''e1'')) world0))
                        (snd (WriteTask_Retry owner0 (Inr None) (write_task0 (Value ''e1'')) world0)))))
     = [''HEAD'', ''PUT''] \<and>
   result (promise (fst (DeleteTask_OnPeekResponse owner0 (Inr (response0 503))
                          (fst (DeleteTask_Retry owner0 True (Inr None) (delete_task0 (Value ''e1'')) world0))
                          (snd (DeleteTask_Retry owner0 True (Inr None) (delete_task0 (Value ''e1'')) world0)))))
     = None \<and>
   map (\<lambda>req. http_method (builder req))
     (transport (snd (DeleteTask_OnPeekResponse owner0 (Inr (response0 503))
                        (fst (DeleteTask_Retry owner0 True (Inr None) (delete_task0 (Value ''e1'')) world0))
                        (snd (DeleteTask_Retry owner0 True (Inr None) (delete_task0 (Value ''e1'')) world0)))))
     = [''HEAD'', ''DELETE'']"
  by (simp add: WriteTask_OnPeekResponse_def WriteTask_Retry_def WriteTask_DoPut_eq
      DeleteTask_OnPeekResponse_def DeleteTask_Retry_def DeleteTask_DoDelete_eq
      write_task0_def delete_task0_def response0_def world0_def owner0_def fresh_promise_def
      result_needed_def IsUnknown_def IsNoValue_def Let_def absl_Now_def IssueRequest_def
      BuildRequest_sel http_method_builder)

text \<open>
  Claim C6. When the DELETE request of a delete whose promise is unset is answered with
  404, or with a 2xx status that the status classifier accepts, \<open>OnResponse\<close> completes
  the promise with \<open>{generation = NoValue, time = start_time}\<close>, except that for a 404 and
  an \<open>if_equal\<close> that is a concrete value (neither Unknown nor NoValue) the generation is
  Unknown. In particular two unconditional deletes in a row, each answered in this way,
  both succeed with generation NoValue, each stamped with the clock reading taken when
  its DELETE was issued.
\<close>

theorem C6_delete_result:
  assumes needed: "result_needed (promise self)"
      and unset: "result (promise self) = None"
      and resp: "status_code r = 404 \<or>
                 (200 \<le> status_code r \<and> status_code r < 300 \<and>
                  ok (HttpResponseCodeToStatus D r))"
  shows "DeleteTask_OnResponse D owner (Inr r) self w =
           Some (self\<lparr>promise := (promise self)
                   \<lparr>result := Some (Inr \<lparr>generation =
                        (if status_code r = 404 \<and> if_equal (options self) \<noteq> Unknown
                            \<and> if_equal (options self) \<noteq> NoValue
                         then Unknown else NoValue),
                      time = start_time self\<rparr>)\<rparr>\<rparr>, w) \<and>
         (\<forall>(d1::DeleteTask) (d2::DeleteTask) r2.
            result_needed (promise d1) \<and> result (promise d1) = None \<and>
            if_equal (options d1) = Unknown \<and>
            result_needed (promise d2) \<and> result (promise d2) = None \<and>
            if_equal (options d2) = Unknown \<and>
            (status_code r2 = 404 \<or>
             (200 \<le> status_code r2 \<and> status_code r2 < 300 \<and>
              ok (HttpResponseCodeToStatus D r2))) \<longrightarrow>
            (\<exists>a wa b wb.
               unconditional_Delete D owner c r d1 w = Some (a, wa) \<and>
               result (promise a) = Some (Inr \<lparr>generation = NoValue, time = clock w (ticks w)\<rparr>) \<and>
               unconditional_Delete D owner c r2 d2 wa = Some (b, wb) \<and>
               result (promise b) =
                 Some (Inr \<lparr>generation = NoValue, time = clock wa (ticks wa)\<rparr>)))"
proof (intro conjI allI impI)
  have acc: "status_code r = 404 \<or> ok (HttpResponseCodeToStatus D r)"
    using resp by blast
  show "DeleteTask_OnResponse D owner (Inr r) self w =
           Some (self\<lparr>promise := (promise self)
                   \<lparr>result := Some (Inr \<lparr>generation =
                        (if status_code r = 404 \<and> if_equal (options self) \<noteq> Unknown
                            \<and> if_equal (options self) \<noteq> NoValue
                         then Unknown else NoValue),
                      time = start_time self\<rparr>)\<rparr>\<rparr>, w)"
    using DeleteTask_OnResponse_done [OF needed acc, of owner w] unset
    by (auto simp: SetResult_def)
next
  fix d1 d2 :: DeleteTask and r2
  assume h: "result_needed (promise d1) \<and> result (promise d1) = None \<and>
            if_equal (options d1) = Unknown \<and>
            result_needed (promise d2) \<and> result (promise d2) = None \<and>
            if_equal (options d2) = Unknown \<and>
            (status_code r2 = 404 \<or>
             (200 \<le> status_code r2 \<and> status_code r2 < 300 \<and>
              ok (HttpResponseCodeToStatus D r2)))"
  have acc1: "status_code r = 404 \<or> ok (HttpResponseCodeToStatus D r)"
    using resp by blast
  have acc2: "status_code r2 = 404 \<or> ok (HttpResponseCodeToStatus D r2)"
    using h by blast
  have d1: "result_needed (promise d1)" "result (promise d1) = None"
           "if_equal (options d1) = Unknown"
    and d2: "result_needed (promise d2)" "result (promise d2) = None"
            "if_equal (options d2) = Unknown"
    using h by simp_all
  obtain a wa where
    first: "unconditional_Delete D owner c r d1 w = Some (a, wa)"
           "result (promise a) = Some (Inr \<lparr>generation = NoValue, time = clock w (ticks w)\<rparr>)"
    using unconditional_Delete_result [OF d1 acc1, of owner c w] by auto
  obtain b wb where
    second: "unconditional_Delete D owner c r2 d2 wa = Some (b, wb)"
            "result (promise b) =
               Some (Inr \<lparr>generation = NoValue, time = clock wa (ticks wa)\<rparr>)"
    using unconditional_Delete_result [OF d2 acc2, of owner c wa] by auto
  from first second
  show "\<exists>a wa b wb.
          unconditional_Delete D owner c r d1 w = Some (a, wa) \<and>
          result (promise a) = Some (Inr \<lparr>generation = NoValue, time = clock w (ticks w)\<rparr>) \<and>
          unconditional_Delete D owner c r2 d2 wa = Some (b, wb) \<and>
          result (promise b) =
            Some (Inr \<lparr>generation = NoValue, time = clock wa (ticks wa)\<rparr>)"
    by auto
qed

theorem C6_delete_result_witness:
  "result_needed (promise (delete_task0 (Value ''e1''))) \<and>
   result (promise (delete_task0 (Value ''e1''))) = None \<and>
   status_code (response0 404) = 404 \<and>
   DeleteTask_OnResponse ref_deps owner0 (Inr (response0 404)) (delete_task0 (Value ''e1'')) world0 =
     Some ((delete_task0 (Value ''e1''))\<lparr>promise :=
              \<lparr>result = Some (Inr \<lparr>generation = Unknown, time = 0\<rparr>), needed = True\<rparr>\<rparr>,
           world0) \<and>
   (\<exists>a wa b wb.
      unconditional_Delete ref_deps owner0 None (response0 404) (delete_task0 Unknown) world0
        = Some (a, wa) \<and>
      result (promise a) = Some (Inr \<lparr>generation = NoValue, time = 1000\<rparr>) \<and>
      unconditional_Delete ref_deps owner0 None (response0 404) (delete_task0 Unknown) wa
        = Some (b, wb) \<and>
      result (promise b) = Some (Inr \<lparr>generation = NoValue, time = clock wa (ticks wa)\<rparr>))"
proof -
  let ?t = "delete_task0 (Value ''e1'')"
  have a: "result_needed (promise ?t)"
    by (simp add: delete_task0_def fresh_promise_def result_needed_def)
  have b: "result (promise ?t) = None"
    by (simp add: delete_task0_def fresh_promise_def)
  have c: "status_code (response0 404) = 404" by (simp add: response0_def)
  have c': "status_code (response0 404) = 404 \<or>
            (200 \<le> status_code (response0 404) \<and> status_code (response0 404) < 300 \<and>
             ok (HttpResponseCodeToStatus ref_deps (response0 404)))"
    using c by simp
  have u: "result_needed (promise (delete_task0 Unknown)) \<and>
           result (promise (delete_task0 Unknown)) = None \<and>
           if_equal (options (delete_task0 Unknown)) = Unknown"
    by (simp add: delete_task0_def fresh_promise_def result_needed_def)
  note inst = C6_delete_result [OF a b c', of owner0 world0 None]
  from inst have first:
    "DeleteTask_OnResponse ref_deps owner0 (Inr (response0 404)) ?t world0 =
       Some (?t\<lparr>promise := \<lparr>result = Some (Inr \<lparr>generation = Unknown, time = 0\<rparr>),
                              needed = True\<rparr>\<rparr>, world0)"
    using c by (simp add: delete_task0_def fresh_promise_def)
  from inst have
    "\<exists>a wa b wb.
      unconditional_Delete ref_deps owner0 None (response0 404) (delete_task0 Unknown) world0
        = Some (a, wa) \<and>
      result (promise a) =
        Some (Inr \<lparr>generation = NoValue, time = clock world0 (ticks world0)\<rparr>) \<and>
      unconditional_Delete ref_deps owner0 None (response0 404) (delete_task0 Unknown) wa
        = Some (b, wb) \<and>
      result (promise b) = Some (Inr \<lparr>generation = NoValue, time = clock wa (ticks wa)\<rparr>)"
    using u c by blast
  moreover have "clock world0 (ticks world0) = 1000" by (simp add: world0_def)
  ultimately show ?thesis using a b c first by simp
qed

section \<open>Properties of the retry policy\<close>

lemma BackoffForAttempt_jitter:
  assumes "0 \<le> jitter"
  shows "\<exists>j. 0 \<le> j \<and> j \<le> jitter \<and>
           BackoffForAttempt n initial max_d jitter r = min (initial * 2 ^ nat n) max_d + j"
proof (cases "0 < jitter")
  case True
  then have "0 \<le> int r mod (jitter + 1)" "int r mod (jitter + 1) \<le> jitter"
    using pos_mod_bound [of "jitter + 1" "int r"] by simp_all
  then show ?thesis using True by (auto simp: BackoffForAttempt_def)
next
  case False
  then show ?thesis using assms by (auto simp: BackoffForAttempt_def)
qed

lemma Backoff_exhausted:
  assumes "\<not> ok status" and "max_retries owner \<le> n"
  shows "BackoffForAttemptAsync owner status n w = (retries_exhausted n status, w)"
  using assms
  by (simp add: BackoffForAttemptAsync_def MaybeAnnotateStatus_def retries_exhausted_def)

lemma Backoff_scheduled:
  assumes "n < max_retries owner"
  shows "BackoffForAttemptAsync owner status n w =
           (OkStatus,
            w\<lparr>s3_retries := s3_retries w + 1, draws := Suc (draws w),
              ticks := Suc (ticks w),
              timers := timers w @
                [(clock w (ticks w)
                    + BackoffForAttempt n (initial_delay owner) (max_delay owner)
                        (min (Seconds 1) (initial_delay owner)) (entropy w (draws w)),
                  WithExecutor TaskRetry)]\<rparr>)"
  using assms
  by (simp add: BackoffForAttemptAsync_def Let_def draw_def absl_Now_def ScheduleAt_def)

lemma retries_exhausted_not_ok: "\<not> ok (retries_exhausted n status)"
  "\<not> IsCancelled (retries_exhausted n status)"
  by (simp_all add: retries_exhausted_def ok_def IsCancelled_def)

lemma ok_OkStatus: "ok OkStatus" "\<not> IsCancelled OkStatus"
  by (simp_all add: ok_def OkStatus_def IsCancelled_def)

lemma ReadTask_OnResponse_backoff:
  assumes "result_needed (promise self)"
      and "\<not> ok (ReadTask_response_status D response)"
      and "IsRetriable D (ReadTask_response_status D response)"
  shows "ReadTask_OnResponse D owner response self w =
           (let b = BackoffForAttemptAsync owner (ReadTask_response_status D response)
                      (attempt self) w
            in Some (if ok (fst b) then self\<lparr>attempt := attempt self + 1\<rparr>
                     else self\<lparr>attempt := attempt self + 1,
                               promise := SetResult (Inl (fst b)) (promise self)\<rparr>, snd b))"
  using assms by (simp add: ReadTask_OnResponse_def Let_def split: prod.splits)

lemma WriteTask_OnResponse_backoff:
  assumes "result_needed (promise self)"
      and "\<not> ok (response_status D response)"
      and "IsRetriable D (response_status D response)"
  shows "WriteTask_OnResponse D owner response self w =
           (let b = BackoffForAttemptAsync owner (response_status D response) (attempt self) w
            in Some (if ok (fst b) then self\<lparr>attempt := attempt self + 1\<rparr>
                     else self\<lparr>attempt := attempt self + 1,
                               promise := SetResult (Inl (fst b)) (promise self)\<rparr>, snd b))"
  using assms by (simp add: WriteTask_OnResponse_def Let_def split: prod.splits)

lemma DeleteTask_OnResponse_backoff:
  assumes "result_needed (promise self)"
      and "\<not> ok (DeleteTask_response_status D response)"
      and "IsRetriable D (DeleteTask_response_status D response)"
  shows "DeleteTask_OnResponse D owner response self w =
           (let b = BackoffForAttemptAsync owner (DeleteTask_response_status D response)
                      (attempt self) w
            in Some (if ok (fst b) then self\<lparr>attempt := attempt self + 1\<rparr>
                     else self\<lparr>attempt := attempt self + 1,
                               promise := SetResult (Inl (fst b)) (promise self)\<rparr>, snd b))"
  using assms by (simp add: DeleteTask_OnResponse_def Let_def split: prod.splits)

lemma ListTask_OnResponseImpl_backoff:
  assumes "\<not> cancel_signal w (loads w)"
      and "\<not> ok (response_status D response)"
      and "IsRetriable D (response_status D response)"
  shows "ListTask_OnResponseImpl D owner c response self w =
           (let b = BackoffForAttemptAsync owner (response_status D response) (attempt self)
                      (w\<lparr>loads := Suc (loads w)\<rparr>)
            in Some (fst b, self\<lparr>attempt := attempt self + 1\<rparr>, snd b))"
  using assms
  by (simp add: ListTask_OnResponseImpl_def is_cancelled_def Let_def split: prod.splits)

text \<open>
  Claim C7. Let \<open>status\<close> be a failure and let the initial delay be non-negative. With
  attempt number \<open>n \<ge> max_retries\<close>, \<open>BackoffForAttemptAsync\<close> returns the Aborted error
  that names \<open>n\<close> failed attempts and carries the message of \<open>status\<close>, and changes
  nothing. With \<open>n < max_retries\<close> it returns OK, adds one to the retries counter and
  schedules one \<open>Retry\<close> on the executor at \<open>now + delay\<close>, where \<open>now\<close> is the clock reading
  it takes and \<open>delay = min(initial_delay \<cdot> 2^n, max_delay) + j\<close> for a jitter \<open>j\<close> with
  \<open>0 \<le> j \<le> min(1s, initial_delay)\<close>. Each of the four tasks, on a retriable failure, calls
  it with its own attempt number, which it then increments: when the budget is spent the
  read, write and delete tasks hand the Aborted error to their promise and the list task
  sends it to \<open>set_error\<close>, followed by \<open>set_stopping\<close>; otherwise the task is left waiting
  for the scheduled retry.
\<close>

theorem C7_backoff:
  fixes rt :: ReadTask and wt :: WriteTask and dt :: DeleteTask and lt :: ListTask
  assumes failure: "\<not> ok status"
      and delay: "0 \<le> initial_delay owner"
  shows "(max_retries owner \<le> n \<longrightarrow>
            BackoffForAttemptAsync owner status n w = (retries_exhausted n status, w)) \<and>
         (n < max_retries owner \<longrightarrow>
            (\<exists>j. 0 \<le> j \<and> j \<le> min (Seconds 1) (initial_delay owner) \<and>
                 BackoffForAttemptAsync owner status n w =
                   (OkStatus,
                    w\<lparr>s3_retries := s3_retries w + 1, draws := Suc (draws w),
                      ticks := Suc (ticks w),
                      timers := timers w @
                        [(clock w (ticks w)
                            + (min (initial_delay owner * 2 ^ nat n) (max_delay owner) + j),
                          WithExecutor TaskRetry)]\<rparr>))) \<and>
         (result_needed (promise rt) \<and> ReadTask_response_status D response = status \<and>
          IsRetriable D status \<longrightarrow>
            ReadTask_OnResponse D owner response rt w =
              (if max_retries owner \<le> attempt rt
               then Some (rt\<lparr>attempt := attempt rt + 1,
                             promise := SetResult (Inl (retries_exhausted (attempt rt) status))
                                          (promise rt)\<rparr>, w)
               else Some (rt\<lparr>attempt := attempt rt + 1\<rparr>,
                          snd (BackoffForAttemptAsync owner status (attempt rt) w)))) \<and>
         (result_needed (promise wt) \<and> response_status D response = status \<and>
          IsRetriable D status \<longrightarrow>
            WriteTask_OnResponse D owner response wt w =
              (if max_retries owner \<le> attempt wt
               then Some (wt\<lparr>attempt := attempt wt + 1,
                             promise := SetResult (Inl (retries_exhausted (attempt wt) status))
                                          (promise wt)\<rparr>, w)
               else Some (wt\<lparr>attempt := attempt wt + 1\<rparr>,
                          snd (BackoffForAttemptAsync owner status (attempt wt) w)))) \<and>
         (result_needed (promise dt) \<and> DeleteTask_response_status D response = status \<and>
          IsRetriable D status \<longrightarrow>
            DeleteTask_OnResponse D owner response dt w =
              (if max_retries owner \<le> attempt dt
               then Some (dt\<lparr>attempt := attempt dt + 1,
                             promise := SetResult (Inl (retries_exhausted (attempt dt) status))
                                          (promise dt)\<rparr>, w)
               else Some (dt\<lparr>attempt := attempt dt + 1\<rparr>,
                          snd (BackoffForAttemptAsync owner status (attempt dt) w)))) \<and>
         (\<not> cancel_signal w (loads w) \<and> response_status D response = status \<and>
          IsRetriable D status \<longrightarrow>
            ListTask_OnResponse D owner c response lt w =
              (if max_retries owner \<le> attempt lt
               then Some (emit [set_error (retries_exhausted (attempt lt) status), set_stopping]
                            (lt\<lparr>attempt := attempt lt + 1\<rparr>),
                          w\<lparr>loads := Suc (loads w)\<rparr>)
               else Some (lt\<lparr>attempt := attempt lt + 1\<rparr>,
                          snd (BackoffForAttemptAsync owner status (attempt lt)
                                 (w\<lparr>loads := Suc (loads w)\<rparr>)))))"
proof (intro conjI impI)
  assume "max_retries owner \<le> n"
  then show "BackoffForAttemptAsync owner status n w = (retries_exhausted n status, w)"
    using failure by (rule Backoff_exhausted [rotated])
next
  assume less: "n < max_retries owner"
  have "0 \<le> min (Seconds 1) (initial_delay owner)"
    using delay by (simp add: Seconds_def)
  then obtain j where j: "0 \<le> j" "j \<le> min (Seconds 1) (initial_delay owner)"
    "BackoffForAttempt n (initial_delay owner) (max_delay owner)
       (min (Seconds 1) (initial_delay owner)) (entropy w (draws w)) =
     min (initial_delay owner * 2 ^ nat n) (max_delay owner) + j"
    using BackoffForAttempt_jitter by blast
  show "\<exists>j. 0 \<le> j \<and> j \<le> min (Seconds 1) (initial_delay owner) \<and>
                 BackoffForAttemptAsync owner status n w =
                   (OkStatus,
                    w\<lparr>s3_retries := s3_retries w + 1, draws := Suc (draws w),
                      ticks := Suc (ticks w),
                      timers := timers w @
                        [(clock w (ticks w)
                            + (min (initial_delay owner * 2 ^ nat n) (max_delay owner) + j),
                          WithExecutor TaskRetry)]\<rparr>)"
    using j Backoff_scheduled [OF less, of status w] by auto
next
  assume h: "result_needed (promise rt) \<and> ReadTask_response_status D response = status \<and>
             IsRetriable D status"
  then have pre: "result_needed (promise rt)" "\<not> ok (ReadTask_response_status D response)"
    "IsRetriable D (ReadTask_response_status D response)"
    using failure by simp_all
  show "ReadTask_OnResponse D owner response rt w =
              (if max_retries owner \<le> attempt rt
               then Some (rt\<lparr>attempt := attempt rt + 1,
                             promise := SetResult (Inl (retries_exhausted (attempt rt) status))
                                          (promise rt)\<rparr>, w)
               else Some (rt\<lparr>attempt := attempt rt + 1\<rparr>,
                          snd (BackoffForAttemptAsync owner status (attempt rt) w)))"
  proof (cases "max_retries owner \<le> attempt rt")
    case True
    then show ?thesis
      using ReadTask_OnResponse_backoff [OF pre, of owner w] h
        Backoff_exhausted [OF failure True, of w]
      by (simp add: Let_def retries_exhausted_not_ok)
  next
    case False
    then have "attempt rt < max_retries owner" by simp
    then show ?thesis
      using ReadTask_OnResponse_backoff [OF pre, of owner w] h
        Backoff_scheduled [of "attempt rt" owner status w] False
      by (simp add: Let_def ok_OkStatus)
  qed
next
  assume h: "result_needed (promise wt) \<and> response_status D response = status \<and>
             IsRetriable D status"
  then have pre: "result_needed (promise wt)" "\<not> ok (response_status D response)"
    "IsRetriable D (response_status D response)"
    using failure by simp_all
  show "WriteTask_OnResponse D owner response wt w =
              (if max_retries owner \<le> attempt wt
               then Some (wt\<lparr>attempt := attempt wt + 1,
                             promise := SetResult (Inl (retries_exhausted (attempt wt) status))
                                          (promise wt)\<rparr>, w)
               else Some (wt\<lparr>attempt := attempt wt + 1\<rparr>,
                          snd (BackoffForAttemptAsync owner status (attempt wt) w)))"
  proof (cases "max_retries owner \<le> attempt wt")
    case True
    then show ?thesis
      using WriteTask_OnResponse_backoff [OF pre, of owner w] h
        Backoff_exhausted [OF failure True, of w]
      by (simp add: Let_def retries_exhausted_not_ok)
  next
    case False
    then have "attempt wt < max_retries owner" by simp
    then show ?thesis
      using WriteTask_OnResponse_backoff [OF pre, of owner w] h
        Backoff_scheduled [of "attempt wt" owner status w] False
      by (simp add: Let_def ok_OkStatus)
  qed
next
  assume h: "result_needed (promise dt) \<and> DeleteTask_response_status D response = status \<and>
             IsRetriable D status"
  then have pre: "result_needed (promise dt)" "\<not> ok (DeleteTask_response_status D response)"
    "IsRetriable D (DeleteTask_response_status D response)"
    using failure by simp_all
  show "DeleteTask_OnResponse D owner response dt w =
              (if max_retries owner \<le> attempt dt
               then Some (dt\<lparr>attempt := attempt dt + 1,
                             promise := SetResult (Inl (retries_exhausted (attempt dt) status))
                                          (promise dt)\<rparr>, w)
               else Some (dt\<lparr>attempt := attempt dt + 1\<rparr>,
                          snd (BackoffForAttemptAsync owner status (attempt dt) w)))"
  proof (cases "max_retries owner \<le> attempt dt")
    case True
    then show ?thesis
      using DeleteTask_OnResponse_backoff [OF pre, of owner w] h
        Backoff_exhausted [OF failure True, of w]
      by (simp add: Let_def retries_exhausted_not_ok)
  next
    case False
    then have "attempt dt < max_retries owner" by simp
    then show ?thesis
      using DeleteTask_OnResponse_backoff [OF pre, of owner w] h
        Backoff_scheduled [of "attempt dt" owner status w] False
      by (simp add: Let_def ok_OkStatus)
  qed
next
  assume h: "\<not> cancel_signal w (loads w) \<and> response_status D response = status \<and>
             IsRetriable D status"
  then have pre: "\<not> cancel_signal w (loads w)" "\<not> ok (response_status D response)"
    "IsRetriable D (response_status D response)"
    using failure by simp_all
  show "ListTask_OnResponse D owner c response lt w =
              (if max_retries owner \<le> attempt lt
               then Some (emit [set_error (retries_exhausted (attempt lt) status), set_stopping]
                            (lt\<lparr>attempt := attempt lt + 1\<rparr>),
                          w\<lparr>loads := Suc (loads w)\<rparr>)
               else Some (lt\<lparr>attempt := attempt lt + 1\<rparr>,
                          snd (BackoffForAttemptAsync owner status (attempt lt)
                                 (w\<lparr>loads := Suc (loads w)\<rparr>))))"
  proof (cases "max_retries owner \<le> attempt lt")
    case True
    then show ?thesis
      using ListTask_OnResponseImpl_backoff [OF pre, of owner c lt] h
        Backoff_exhausted [OF failure True, of "w\<lparr>loads := Suc (loads w)\<rparr>"]
      by (simp add: ListTask_OnResponse_def Let_def retries_exhausted_not_ok)
  next
    case False
    then have "attempt lt < max_retries owner" by simp
    then show ?thesis
      using ListTask_OnResponseImpl_backoff [OF pre, of owner c lt] h
        Backoff_scheduled [of "attempt lt" owner status "w\<lparr>loads := Suc (loads w)\<rparr>"] False
      by (simp add: ListTask_OnResponse_def Let_def ok_OkStatus)
  qed
qed

theorem C7_backoff_witness:
  "\<not> ok unavailable0 \<and> 0 \<le> initial_delay owner0 \<and>
   BackoffForAttemptAsync owner0 unavailable0 3 world0 =
     (\<lparr>code = kAborted, message = ''All 3 retry attempts failed: connect''\<rparr>, world0) \<and>
   (\<exists>j. 0 \<le> j \<and> j \<le> 1000000000 \<and>
        BackoffForAttemptAsync owner0 unavailable0 1 world0 =
          (OkStatus,
           world0\<lparr>s3_retries := 1, draws := 1, ticks := 1,
                  timers := [(1000 + (2000000000 + j), WithExecutor TaskRetry)]\<rparr>))"
proof -
  have a: "\<not> ok unavailable0" by (simp add: unavailable0_def ok_def)
  have b: "0 \<le> initial_delay owner0" by (simp add: owner0_def Seconds_def)
  note inst3 = C7_backoff [OF a b, of 3 world0]
  note inst1 = C7_backoff [OF a b, of 1 world0]
  have three: "max_retries owner0 \<le> 3" by (simp add: owner0_def)
  have one: "1 < max_retries owner0" by (simp add: owner0_def)
  have "BackoffForAttemptAsync owner0 unavailable0 3 world0 =
          (retries_exhausted 3 unavailable0, world0)"
    using inst3 three by blast
  moreover have "retries_exhausted 3 unavailable0 =
                   \<lparr>code = kAborted, message = ''All 3 retry attempts failed: connect''\<rparr>"
    by (simp add: retries_exhausted_def unavailable0_def StrCat_int_def StrCat_nat.simps
        digit_char_def)
  moreover have "\<exists>j. 0 \<le> j \<and> j \<le> min (Seconds 1) (initial_delay owner0) \<and>
        BackoffForAttemptAsync owner0 unavailable0 1 world0 =
          (OkStatus,
           world0\<lparr>s3_retries := s3_retries world0 + 1, draws := Suc (draws world0),
                  ticks := Suc (ticks world0),
                  timers := timers world0 @
                    [(clock world0 (ticks world0)
                        + (min (initial_delay owner0 * 2 ^ nat 1) (max_delay owner0) + j),
                      WithExecutor TaskRetry)]\<rparr>)"
    using inst1 one by blast
  moreover have "min (Seconds 1) (initial_delay owner0) = 1000000000"
    "min (initial_delay owner0 * 2 ^ nat 1) (max_delay owner0) = 2000000000"
    "s3_retries world0 + 1 = 1" "Suc (draws world0) = 1" "Suc (ticks world0) = 1"
    "timers world0 = []" "clock world0 (ticks world0) = 1000"
    by (simp_all add: owner0_def world0_def Seconds_def)
  ultimately show ?thesis using a b by simp
qed

section \<open>Properties of ListTask\<close>

text \<open>
  Claim C4, evaluated where it fails. A list over the range \<open>[abc, abd)\<close> with
  \<open>strip_prefix_length = 2\<close>: \<open>IssueRequest\<close> truncates the lower bound of the task's own
  range to \<open>ab\<close>, so the page's key \<open>abb\<close>, which is not in the caller's range, passes the
  filter and is emitted (as \<open>b\<close>) before the key \<open>abc\<close> (emitted as \<open>c\<close>).
\<close>

theorem C4_list_emits_key_outside_range:
  "\<not> Contains (key_range list_options0) ''abb'' \<and>
   Contains (key_range list_options0) ''abc'' \<and>
   (case S3KeyValueStore_ListImpl owner0 (Inr None) list_options0 world0 of
      (t, w) \<Rightarrow> map_option (\<lambda>(t, w). (receiver t, key_range (list_options t)))
                  (ListTask_OnResponse ref_deps owner0 (Inr None) (Inr page0) t w)) =
     Some ([set_starting, set_value ''b'', set_value ''c'', set_done, set_stopping],
           \<lparr>kr_inclusive_min = ''ab'', kr_exclusive_max = ''abd''\<rparr>)"
  by code_simp

lemma ListTask_OnResponseImpl_body:
  assumes "\<not> cancel_signal w (loads w)"
      and "\<not> (\<not> ok (HttpResponseCodeToStatus D r) \<and> IsRetriable D (HttpResponseCodeToStatus D r))"
      and "\<not> (\<not> ok (HttpResponseCodeToStatus D r') \<and> IsRetriable D (HttpResponseCodeToStatus D r'))"
      and "payload r' = payload r"
  shows "ListTask_OnResponseImpl D owner c (Inr r) self w =
           ListTask_OnResponseImpl D owner c (Inr r') self w"
proof -
  have through:
    "(\<not> ok (HttpResponseCodeToStatus D r) \<and> IsRetriable D (HttpResponseCodeToStatus D r)) = False"
    "(\<not> ok (HttpResponseCodeToStatus D r') \<and> IsRetriable D (HttpResponseCodeToStatus D r')) = False"
    using assms(2,3) by simp_all
  show ?thesis
    using assms(1,4)
    by (simp add: ListTask_OnResponseImpl_def is_cancelled_def response_status_def Let_def
        through)
qed

lemma ListTask_OnResponseImpl_no_open_tag:
  assumes "\<not> cancel_signal w (loads w)"
      and "\<not> (\<not> ok (HttpResponseCodeToStatus D r) \<and> IsRetriable D (HttpResponseCodeToStatus D r))"
      and "FindTag D (payload r) kListBucketOpenTag 0 False = Inl e"
  shows "ListTask_OnResponseImpl D owner c (Inr r) self w =
           Some (e, self, w\<lparr>loads := Suc (loads w)\<rparr>)"
proof -
  have through:
    "(\<not> ok (HttpResponseCodeToStatus D r) \<and> IsRetriable D (HttpResponseCodeToStatus D r)) = False"
    using assms(2) by simp
  show ?thesis
    using assms(1,3)
    by (simp add: ListTask_OnResponseImpl_def is_cancelled_def response_status_def Let_def
        through)
qed

text \<open>
  Claim C9. Let a list task that is not cancelled receive a response whose status the
  classifier turns into a non-retriable error. Then \<open>OnResponse\<close> does exactly what it
  does for a successful response with the same body, so the HTTP status never reaches the
  receiver; and when the body lacks the opening \<^verbatim>\<open>ListBucketResult\<close> tag, the receiver gets
  \<open>set_error\<close> with the error of that tag search, followed by \<open>set_stopping\<close>, and no
  request is issued.
\<close>

theorem C9_list_error_body:
  assumes live: "\<not> cancel_signal w (loads w)"
      and error: "\<not> ok (HttpResponseCodeToStatus D r)"
      and nonretriable: "\<not> IsRetriable D (HttpResponseCodeToStatus D r)"
  shows "(\<forall>r'. payload r' = payload r \<and> ok (HttpResponseCodeToStatus D r') \<longrightarrow>
            ListTask_OnResponse D owner c (Inr r) self w =
              ListTask_OnResponse D owner c (Inr r') self w) \<and>
         (\<forall>e. FindTag D (payload r) kListBucketOpenTag 0 False = Inl e \<and>
              \<not> ok e \<and> \<not> IsCancelled e \<longrightarrow>
            ListTask_OnResponse D owner c (Inr r) self w =
              Some (emit [set_error e, set_stopping] self, w\<lparr>loads := Suc (loads w)\<rparr>))"
proof (intro conjI allI impI)
  fix r'
  assume "payload r' = payload r \<and> ok (HttpResponseCodeToStatus D r')"
  then have "ListTask_OnResponseImpl D owner c (Inr r) self w =
               ListTask_OnResponseImpl D owner c (Inr r') self w"
    using ListTask_OnResponseImpl_body [OF live, of D r r' owner c self] nonretriable by simp
  then show "ListTask_OnResponse D owner c (Inr r) self w =
               ListTask_OnResponse D owner c (Inr r') self w"
    by (simp add: ListTask_OnResponse_def)
next
  fix e
  assume h: "FindTag D (payload r) kListBucketOpenTag 0 False = Inl e \<and>
             \<not> ok e \<and> \<not> IsCancelled e"
  then have "ListTask_OnResponseImpl D owner c (Inr r) self w =
               Some (e, self, w\<lparr>loads := Suc (loads w)\<rparr>)"
    using ListTask_OnResponseImpl_no_open_tag [OF live, of D r e owner c self] nonretriable
    by simp
  then show "ListTask_OnResponse D owner c (Inr r) self w =
               Some (emit [set_error e, set_stopping] self, w\<lparr>loads := Suc (loads w)\<rparr>)"
    using h by (simp add: ListTask_OnResponse_def)
qed

theorem C9_list_error_body_witness:
  "\<not> cancel_signal world0 (loads world0) \<and>
   \<not> ok (HttpResponseCodeToStatus ref_deps denied0) \<and>
   \<not> IsRetriable ref_deps (HttpResponseCodeToStatus ref_deps denied0) \<and>
   map_option (\<lambda>(t, w). receiver t)
     (ListTask_OnResponse ref_deps owner0 (Inr None) (Inr denied0) list_task0 world0) =
     Some [set_starting,
           set_error (InvalidArgumentError
                        (''Malformed List Response XML: can't find '' @ kListBucketOpenTag)),
           set_stopping]"
proof -
  let ?e = "InvalidArgumentError (''Malformed List Response XML: can't find '' @ kListBucketOpenTag)"
  have a: "\<not> cancel_signal world0 (loads world0)" by (simp add: world0_def)
  have b: "\<not> ok (HttpResponseCodeToStatus ref_deps denied0)" by code_simp
  have c: "\<not> IsRetriable ref_deps (HttpResponseCodeToStatus ref_deps denied0)" by code_simp
  have d: "FindTag ref_deps (payload denied0) kListBucketOpenTag 0 False = Inl ?e \<and>
           \<not> ok ?e \<and> \<not> IsCancelled ?e"
    by code_simp
  from C9_list_error_body [OF a b c, of owner0 "Inr None" list_task0] d
  have "ListTask_OnResponse ref_deps owner0 (Inr None) (Inr denied0) list_task0 world0 =
          Some (emit [set_error ?e, set_stopping] list_task0,
                world0\<lparr>loads := Suc (loads world0)\<rparr>)"
    by blast
  then show ?thesis using a b c by (simp add: emit_def list_task0_def)
qed

text \<open>
  Claim C10, as the code has it. For a \<^verbatim>\<open>Result\<close> that holds an error,
  \<open>OnResponseImpl\<close> reads the payload of the absent response exactly when the task is not
  cancelled and the error is not a retriable one: only the cancelled and the retriable
  paths return before \<^verbatim>\<open>response->payload\<close>.
\<close>

theorem C10_list_reads_payload_of_failed_result:
  "(ListTask_OnResponseImpl D owner c (Inl st) self w = None \<longleftrightarrow>
      \<not> cancel_signal w (loads w) \<and> \<not> (\<not> ok st \<and> IsRetriable D st)) \<and>
   (ListTask_OnResponse D owner c (Inl st) self w = None \<longleftrightarrow>
      \<not> cancel_signal w (loads w) \<and> \<not> (\<not> ok st \<and> IsRetriable D st))"
  by (auto simp: ListTask_OnResponse_def ListTask_OnResponseImpl_def is_cancelled_def
      response_status_def Let_def split: prod.splits option.splits)

theorem C10_list_reads_payload_of_failed_result_witness:
  "\<not> cancel_signal world0 (loads world0) \<and>
   \<not> IsRetriable ref_deps \<lparr>code = kInvalidArgument, message = ''URL using bad/illegal format''\<rparr> \<and>
   ListTask_OnResponseImpl ref_deps owner0 (Inr None)
     (Inl \<lparr>code = kInvalidArgument, message = ''URL using bad/illegal format''\<rparr>)
     list_task0 world0 = None \<and>
   ListTask_OnResponse ref_deps owner0 (Inr None)
     (Inl \<lparr>code = kInvalidArgument, message = ''URL using bad/illegal format''\<rparr>)
     list_task0 world0 = None"
proof -
  have a: "\<not> cancel_signal world0 (loads world0)" by (simp add: world0_def)
  have b: "\<not> IsRetriable ref_deps
               \<lparr>code = kInvalidArgument, message = ''URL using bad/illegal format''\<rparr>"
    by (simp add: ref_deps_def ref_IsRetriable_def)
  from C10_list_reads_payload_of_failed_result [of ref_deps owner0 "Inr None"
              "\<lparr>code = kInvalidArgument, message = ''URL using bad/illegal format''\<rparr>"
              list_task0 world0] a b
  show ?thesis by simp
qed

end
